theory Spec2Isabelle
  imports Complex_Main "HOL-Library.Multiset"
begin

section \<open>Replay buffer\<close>

text \<open>
  The agents keep their experience in \<^verbatim>\<open>ReplayMemory\<close> (SAC, TD3) and
  \<^verbatim>\<open>DQNReplayMemory\<close> (DQN). Both classes live in \<^verbatim>\<open>commons/utils.py\<close>, which is
  not among the sources; the models only construct them, ask for their length, push into
  them and sample from them. The buffer below follows the specification's contract of
  section 4.1: a fixed capacity, a list of stored entries and a write cursor.
\<close>

record 'a ReplayMemory =
  capacity :: nat
  memory :: "'a list"
  position :: nat

definition new_memory :: "nat \<Rightarrow> 'a ReplayMemory" where
  "new_memory C = \<lparr>capacity = C, memory = [], position = 0\<rparr>"

text \<open>
  Modelled from the spec: \<^verbatim>\<open>ReplayMemory.push\<close> is missing from the sources.
  "Appends to the buffer. If not yet at capacity, length grows by one; otherwise overwrites
  the slot at the current write cursor. Cursor advances modulo capacity."
\<close>

definition push :: "'a \<Rightarrow> 'a ReplayMemory \<Rightarrow> 'a ReplayMemory" where
  "push t m =
     m\<lparr>memory :=
         (if length (memory m) < capacity m then memory m @ [t]
          else (memory m)[position m := t]),
       position := (position m + 1) mod capacity m\<rparr>"

text \<open>Modelled from the spec: \<^verbatim>\<open>ReplayMemory.__len__\<close>, the current number of stored
  transitions.\<close>

definition len :: "'a ReplayMemory \<Rightarrow> nat" where
  "len m = length (memory m)"

text \<open>A sequence of pushes, oldest first, into a buffer.\<close>

fun pushes :: "'a list \<Rightarrow> 'a ReplayMemory \<Rightarrow> 'a ReplayMemory" where
  "pushes [] m = m"
| "pushes (t # ts) m = pushes ts (push t m)"

text \<open>The stored entries read from the write cursor round the ring: the slot under the
  cursor is the next one to be overwritten, so this lists the entries oldest first once the
  buffer is full.\<close>

definition ring_contents :: "'a ReplayMemory \<Rightarrow> 'a list" where
  "ring_contents m = drop (position m) (memory m) @ take (position m) (memory m)"

text \<open>The invariant that every reachable buffer of positive capacity satisfies, relative
  to the list \<open>ps\<close> of everything pushed so far.\<close>

definition ring_inv :: "nat \<Rightarrow> 'a list \<Rightarrow> 'a ReplayMemory \<Rightarrow> bool" where
  "ring_inv C ps m \<longleftrightarrow>
     capacity m = C \<and>
     length (memory m) = min (length ps) C \<and>
     position m = length ps mod C \<and>
     (if length ps < C then memory m = ps
      else ring_contents m = drop (length ps - C) ps)"

text \<open>
  Modelled from the spec: \<^verbatim>\<open>ReplayMemory.sample\<close> is missing from the sources.
  "If current length < batch_size, returns not enough data. Otherwise draws batch_size
  transitions uniformly at random with replacement or without, per configuration."
  The random generator is the stream \<open>rng\<close> of raw draws; the \<open>j\<close>-th draw picks the slot
  \<open>rng j mod n\<close> among the \<open>n\<close> candidates. The batch is the sequence of the drawn
  transitions, which is how the callers in \<^verbatim>\<open>SAC/model.py\<close>, \<^verbatim>\<open>TD3/model.py\<close> and
  \<^verbatim>\<open>DQN/model.py\<close> consume it. The buffer is only read.
\<close>

definition draw_with_replacement :: "(nat \<Rightarrow> nat) \<Rightarrow> nat \<Rightarrow> 'a list \<Rightarrow> 'a list" where
  "draw_with_replacement rng k pool = map (\<lambda>j. pool ! (rng j mod length pool)) [0..<k]"

fun draw_without_replacement :: "(nat \<Rightarrow> nat) \<Rightarrow> nat \<Rightarrow> 'a list \<Rightarrow> 'a list" where
  "draw_without_replacement rng 0 pool = []"
| "draw_without_replacement rng (Suc k) pool =
     (if pool = [] then []
      else let i = rng k mod length pool
           in pool ! i # draw_without_replacement rng k (take i pool @ drop (Suc i) pool))"

definition sample ::
  "bool \<Rightarrow> (nat \<Rightarrow> nat) \<Rightarrow> 'a ReplayMemory \<Rightarrow> nat \<Rightarrow> 'a list option" where
  "sample with_replacement rng m batch_size =
     (if len m < batch_size then None
      else Some (if with_replacement then draw_with_replacement rng batch_size (memory m)
                 else draw_without_replacement rng batch_size (memory m)))"

subsection \<open>N-step extension\<close>

text \<open>A stored transition: state, action, reward, next state and the termination flag.\<close>

text \<open>The field \<open>done_flag\<close> is the source's \<^verbatim>\<open>done\<close>.\<close>

record ('s, 'a) Transition =
  state :: 's
  action :: 'a
  reward :: real
  next_state :: 's
  done_flag :: bool

text \<open>
  Modelled from the spec: \<^verbatim>\<open>DQNReplayMemory\<close> (constructed in \<^verbatim>\<open>DQN/model.py\<close> from
  MEMORY_SIZE, N_STEP and GAMMA) is missing from the sources. The discounted return of a
  window of rewards is \<open>sum_{i=0}^{n-1} gamma^i * reward_i\<close>.
\<close>

definition discounted_return :: "real \<Rightarrow> real list \<Rightarrow> real" where
  "discounted_return g rs = (\<Sum>i\<leftarrow>[0..<length rs]. g ^ i * rs ! i)"

text \<open>The aggregated transition of a non-empty window: the return of its rewards, the state
  and action at the window's head, the next state and termination flag at its tail.\<close>

definition aggregate :: "real \<Rightarrow> ('s, 'a) Transition list \<Rightarrow> ('s, 'a) Transition" where
  "aggregate g w =
     \<lparr>state = state (hd w), action = action (hd w),
      reward = discounted_return g (map reward w),
      next_state = next_state (last w), done_flag = done_flag (last w)\<rparr>"

record ('s, 'a) DQNReplayMemory =
  n_step :: nat
  gamma :: real
  window :: "('s, 'a) Transition list"
  main :: "('s, 'a) Transition ReplayMemory"

definition new_dqn_memory :: "nat \<Rightarrow> nat \<Rightarrow> real \<Rightarrow> ('s, 'a) DQNReplayMemory" where
  "new_dqn_memory C n g = \<lparr>n_step = n, gamma = g, window = [], main = new_memory C\<rparr>"

text \<open>
  Modelled from the spec: the n-step push. "Maintains a bounded pending window of the last
  n raw transitions; on each new raw transition, if the window has n entries, it computes a
  discounted n-step return combined with the state at the window's head and the next_state
  at the window's tail, and pushes that single aggregated Transition into the main buffer;
  the window then slides by one. Early termination (done=True at any point inside the
  window) immediately aggregates an episode-incomplete transition using only the rewards
  accumulated so far and flushes the window."
\<close>

definition nstep_push :: "('s, 'a) Transition \<Rightarrow> ('s, 'a) DQNReplayMemory \<Rightarrow> ('s, 'a) DQNReplayMemory" where
  "nstep_push t m =
     (let w = window m @ [t] in
      if done_flag t then m\<lparr>window := [], main := push (aggregate (gamma m) w) (main m)\<rparr>
      else if n_step m \<le> length w then
        m\<lparr>window := tl w, main := push (aggregate (gamma m) w) (main m)\<rparr>
      else m\<lparr>window := w\<rparr>)"

section \<open>Python values, exceptions and tensors\<close>

text \<open>
  The exceptions the modelled code can raise. An exception is a value: a function that can
  raise returns \<open>py_error + 'a\<close>, with \<open>Inl\<close> for the exception.
\<close>

datatype py_error =
  ValueError | IndexError | TypeError | RuntimeError | AttributeError
  | ZeroDivisionError | UnboundLocalError | OSError | KeyboardInterrupt

text \<open>
  What the drivers hand to the replay memory and what the models read back: a numeric
  vector (a state, a continuous action), a scalar (a reward), a boolean (the \<^verbatim>\<open>done\<close>
  flag) or a discrete action index. A stored number is a real: a finite Python float.
\<close>

datatype pyval = Vec "real list" | Num real | Bool bool | Idx nat

text \<open>
  An entry of a float32 tensor: a finite number, an infinity or nan. The result of an
  arithmetic operation on finite entries is the exact result rounded to float32 (to an
  infinity when it overflows); the rounding \<open>rnd\<close> is a parameter of the operations.
  Otherwise they follow IEEE 754, as torch does: \<open>0 * inf\<close> and \<open>inf - inf\<close> are nan,
  and nan propagates, also through \<^verbatim>\<open>torch.min\<close>. The sign of a zero is not kept.
\<close>

datatype float32 = Fin real | PInf | NInf | NaN

fun is_finite :: "float32 \<Rightarrow> bool" where
  "is_finite (Fin a) = True"
| "is_finite PInf = False"
| "is_finite NInf = False"
| "is_finite NaN = False"

fun fl_neg :: "float32 \<Rightarrow> float32" where
  "fl_neg (Fin a) = Fin (- a)"
| "fl_neg PInf = NInf"
| "fl_neg NInf = PInf"
| "fl_neg NaN = NaN"

fun fl_add :: "(real \<Rightarrow> float32) \<Rightarrow> float32 \<Rightarrow> float32 \<Rightarrow> float32" where
  "fl_add rnd (Fin a) (Fin b) = rnd (a + b)"
| "fl_add rnd NaN y = NaN"
| "fl_add rnd x NaN = NaN"
| "fl_add rnd PInf NInf = NaN"
| "fl_add rnd NInf PInf = NaN"
| "fl_add rnd PInf y = PInf"
| "fl_add rnd NInf y = NInf"
| "fl_add rnd x PInf = PInf"
| "fl_add rnd x NInf = NInf"

definition fl_sub :: "(real \<Rightarrow> float32) \<Rightarrow> float32 \<Rightarrow> float32 \<Rightarrow> float32" where
  "fl_sub rnd x y = fl_add rnd x (fl_neg y)"

fun fl_mul :: "(real \<Rightarrow> float32) \<Rightarrow> float32 \<Rightarrow> float32 \<Rightarrow> float32" where
  "fl_mul rnd (Fin a) (Fin b) = rnd (a * b)"
| "fl_mul rnd NaN y = NaN"
| "fl_mul rnd x NaN = NaN"
| "fl_mul rnd (Fin a) PInf = (if a = 0 then NaN else if 0 < a then PInf else NInf)"
| "fl_mul rnd (Fin a) NInf = (if a = 0 then NaN else if 0 < a then NInf else PInf)"
| "fl_mul rnd PInf (Fin b) = (if b = 0 then NaN else if 0 < b then PInf else NInf)"
| "fl_mul rnd NInf (Fin b) = (if b = 0 then NaN else if 0 < b then NInf else PInf)"
| "fl_mul rnd PInf PInf = PInf"
| "fl_mul rnd PInf NInf = NInf"
| "fl_mul rnd NInf PInf = NInf"
| "fl_mul rnd NInf NInf = PInf"

fun fl_min :: "float32 \<Rightarrow> float32 \<Rightarrow> float32" where
  "fl_min (Fin a) (Fin b) = Fin (min a b)"
| "fl_min NaN y = NaN"
| "fl_min x NaN = NaN"
| "fl_min NInf y = NInf"
| "fl_min x NInf = NInf"
| "fl_min PInf y = y"
| "fl_min x PInf = x"

text \<open>
  What the properties below need of the rounding: 0 and 1 are float32 numbers, and a
  float32 number is rounded to itself.
\<close>

definition float32_rounding :: "(real \<Rightarrow> float32) \<Rightarrow> bool" where
  "float32_rounding rnd \<longleftrightarrow>
     rnd 0 = Fin 0 \<and> rnd 1 = Fin 1 \<and> (\<forall>x a. rnd x = Fin a \<longrightarrow> rnd a = Fin a)"

definition err_bind :: "'e + 'a \<Rightarrow> ('a \<Rightarrow> 'e + 'b) \<Rightarrow> 'e + 'b" where
  "err_bind x f = (case x of Inl e \<Rightarrow> Inl e | Inr v \<Rightarrow> f v)"

text \<open>\<^verbatim>\<open>xs[i]\<close> for a non-negative constant index: past the end it raises IndexError.\<close>

definition py_index :: "'v list \<Rightarrow> nat \<Rightarrow> py_error + 'v" where
  "py_index xs i = (if i < length xs then Inr (xs ! i) else Inl IndexError)"

text \<open>
  \<^verbatim>\<open>list(zip(*rows))\<close>: the \<open>i\<close>-th result collects the \<open>i\<close>-th element of every row; it
  stops at the shortest row, and no rows give no results.
\<close>

fun py_zip_star :: "'v list list \<Rightarrow> 'v list list" where
  "py_zip_star [] = []"
| "py_zip_star (r # rs) =
     map (\<lambda>i. map (\<lambda>x. x ! i) (r # rs)) [0..<foldr (\<lambda>x n. min (length x) n) rs (length r)]"

text \<open>Unpacking a sequence into five names: any other number of items raises ValueError.\<close>

definition unpack5 :: "'v list \<Rightarrow> py_error + ('v \<times> 'v \<times> 'v \<times> 'v \<times> 'v)" where
  "unpack5 xs =
     (case xs of [a, b, c, d, e] \<Rightarrow> Inr (a, b, c, d, e) | _ \<Rightarrow> Inl ValueError)"

text \<open>
  \<^verbatim>\<open>torch.FloatTensor(column)\<close> for a column of numeric vectors (states, actions): a
  two-dimensional tensor, one row per item. Rows of different lengths give ValueError. A
  column with an item that is not a vector has no such tensor; the model ends the call
  there with TypeError, and no property below depends on which exception it is.
\<close>

fun as_vec :: "pyval \<Rightarrow> real list option" where
  "as_vec (Vec v) = Some v"
| "as_vec _ = None"

definition float_tensor_rows :: "pyval list \<Rightarrow> py_error + real list list" where
  "float_tensor_rows col =
     (if \<exists>x \<in> set col. as_vec x = None then Inl TypeError
      else if \<exists>x \<in> set col. \<exists>y \<in> set col.
                length (the (as_vec x)) \<noteq> length (the (as_vec y)) then Inl ValueError
      else Inr (map (\<lambda>x. the (as_vec x)) col))"

text \<open>
  \<^verbatim>\<open>torch.FloatTensor(column).unsqueeze(1)\<close> for a column of scalars (rewards, done
  flags): a column tensor with one float32 entry per item. A number is rounded to float32;
  a boolean becomes 1.0 or 0.0. A vector among the items has no such tensor; the model ends
  the call there with TypeError.
\<close>

fun as_float :: "(real \<Rightarrow> float32) \<Rightarrow> pyval \<Rightarrow> float32 option" where
  "as_float rnd (Num r) = Some (rnd r)"
| "as_float rnd (Bool b) = Some (Fin (if b then 1 else 0))"
| "as_float rnd (Idx n) = Some (rnd (real n))"
| "as_float rnd (Vec v) = None"

definition float_tensor_column :: "(real \<Rightarrow> float32) \<Rightarrow> pyval list \<Rightarrow> py_error + float32 list" where
  "float_tensor_column rnd col =
     (if \<exists>x \<in> set col. as_float rnd x = None then Inl TypeError
      else Inr (map (\<lambda>x. the (as_float rnd x)) col))"

text \<open>
  An elementwise operation on two column tensors, with torch's broadcasting: the sizes
  agree, or one of them is 1; anything else raises RuntimeError.
\<close>

definition broadcast2 :: "('a \<Rightarrow> 'b \<Rightarrow> 'c) \<Rightarrow> 'a list \<Rightarrow> 'b list \<Rightarrow> py_error + 'c list" where
  "broadcast2 f xs ys =
     (if length xs = length ys then Inr (map2 f xs ys)
      else if length xs = 1 then Inr (map (f (hd xs)) ys)
      else if length ys = 1 then Inr (map (\<lambda>x. f x (hd ys)) xs)
      else Inl RuntimeError)"

text \<open>\<^verbatim>\<open>torch.clamp(x, lo, hi)\<close> on one entry of an action.\<close>

definition clamp :: "real \<Rightarrow> real \<Rightarrow> real \<Rightarrow> real" where
  "clamp lo hi x = min (max x lo) hi"

section \<open>SAC and TD3: the batch and the critic target\<close>

text \<open>
  \<^verbatim>\<open>SAC/model.py\<close>, lines 53-61: the sampled transitions are transposed by the model
  and unpacked into five columns, each turned into a tensor. The tensors of states and
  actions only feed the networks, which are opaque; their entries are kept as they are
  stored. The entries of the reward and \<^verbatim>\<open>done\<close> columns are float32 values.
  \<^verbatim>\<open>
  transitions = self.memory.sample(self.config["BATCH_SIZE"])
  states, actions, rewards, next_states, done = list(zip(*transitions))
  states = torch.FloatTensor(states) ...
  done = torch.FloatTensor(done).unsqueeze(1)
  \<close>
\<close>

type_synonym batch =
  "real list list \<times> real list list \<times> float32 list \<times> real list list \<times> float32 list"

definition sac_batch :: "(real \<Rightarrow> float32) \<Rightarrow> pyval list list \<Rightarrow> py_error + batch" where
  "sac_batch rnd transitions =
     err_bind (unpack5 (py_zip_star transitions)) (\<lambda>(states, actions, rewards, next_states, done).
     err_bind (float_tensor_rows states) (\<lambda>states.
     err_bind (float_tensor_rows actions) (\<lambda>actions.
     err_bind (float_tensor_column rnd rewards) (\<lambda>rewards.
     err_bind (float_tensor_rows next_states) (\<lambda>next_states.
     err_bind (float_tensor_column rnd done) (\<lambda>done.
     Inr (states, actions, rewards, next_states, done)))))))"

text \<open>
  \<^verbatim>\<open>TD3/model.py\<close>, lines 41-49: the same, with the columns read by index.
  \<^verbatim>\<open>
  batch = list(zip(*transitions))
  states = torch.FloatTensor(batch[0]) ...
  done = torch.FloatTensor(batch[4]).unsqueeze(1)
  \<close>
\<close>

definition td3_batch :: "(real \<Rightarrow> float32) \<Rightarrow> pyval list list \<Rightarrow> py_error + batch" where
  "td3_batch rnd transitions =
     (let batch = py_zip_star transitions in
      err_bind (py_index batch 0) (\<lambda>c0. err_bind (float_tensor_rows c0) (\<lambda>states.
      err_bind (py_index batch 1) (\<lambda>c1. err_bind (float_tensor_rows c1) (\<lambda>actions.
      err_bind (py_index batch 2) (\<lambda>c2. err_bind (float_tensor_column rnd c2) (\<lambda>rewards.
      err_bind (py_index batch 3) (\<lambda>c3. err_bind (float_tensor_rows c3) (\<lambda>next_states.
      err_bind (py_index batch 4) (\<lambda>c4. err_bind (float_tensor_column rnd c4) (\<lambda>done.
      Inr (states, actions, rewards, next_states, done))))))))))))"

text \<open>
  \<^verbatim>\<open>TD3/model.py\<close>, lines 64 and 67:
  \<^verbatim>\<open>
  target_Q = torch.min(target_Qa, target_Qb)
  target_Q = rewards + done*self.config["GAMMA"]*target_Q
  \<close>
  The product is evaluated from the left: \<^verbatim>\<open>done*GAMMA\<close> first, then times the minimum.
\<close>

definition td3_target ::
  "(real \<Rightarrow> float32) \<Rightarrow> float32 list \<Rightarrow> float32 list \<Rightarrow> real \<Rightarrow> float32 list \<Rightarrow> float32 list
     \<Rightarrow> py_error + float32 list" where
  "td3_target rnd rewards done GAMMA target_Qa target_Qb =
     err_bind (broadcast2 fl_min target_Qa target_Qb) (\<lambda>target_Q.
     err_bind (broadcast2 (\<lambda>d q. fl_mul rnd (fl_mul rnd d (Fin GAMMA)) q) done target_Q)
       (\<lambda>bootstrap.
     broadcast2 (fl_add rnd) rewards bootstrap))"

text \<open>
  \<^verbatim>\<open>SAC/model.py\<close>, line 79:
  \<^verbatim>\<open>target_Q = rewards + (1 - done) * self.config["GAMMA"] * next_V\<close>
\<close>

definition sac_target ::
  "(real \<Rightarrow> float32) \<Rightarrow> float32 list \<Rightarrow> float32 list \<Rightarrow> real \<Rightarrow> float32 list
     \<Rightarrow> py_error + float32 list" where
  "sac_target rnd rewards done GAMMA next_V =
     err_bind (broadcast2 (\<lambda>d v. fl_mul rnd (fl_mul rnd (fl_sub rnd (Fin 1) d) (Fin GAMMA)) v)
                 done next_V) (\<lambda>bootstrap.
     broadcast2 (fl_add rnd) rewards bootstrap)"

text \<open>
  The transition that \<^verbatim>\<open>commons/run_expe.py\<close>, line 118, stores:
  \<^verbatim>\<open>model.memory.push(state, action, reward, next_state, done)\<close>
\<close>

definition stored_row :: "(real list, real list) Transition \<Rightarrow> pyval list" where
  "stored_row t =
     [Vec (state t), Vec (action t), Num (reward t), Vec (next_state t), Bool (done_flag t)]"



section \<open>TD3: \<^verbatim>\<open>Model.optimize\<close>\<close>

text \<open>
  The \<^verbatim>\<open>Actor\<close> and \<^verbatim>\<open>Critic\<close> objects of \<^verbatim>\<open>commons/networks.py\<close> (not among the
  sources) hold an online network, a target network and an optimizer. Their parameters
  \<open>'p\<close> and optimizer state \<open>'o\<close> are opaque.
\<close>

record ('p, 'o) network =
  nn :: 'p
  target_nn :: 'p
  optimizer :: 'o

text \<open>The fields of \<^verbatim>\<open>Model\<close> that \<^verbatim>\<open>optimize\<close> reads or writes (\<^verbatim>\<open>TD3/model.py\<close>,
  lines 13-29). BATCH_SIZE is a natural number.\<close>

record ('p, 'o, 'm) td3_model =
  td3_memory :: 'm
  low_bound :: real
  high_bound :: real
  critic_A :: "('p, 'o) network"
  critic_B :: "('p, 'o) network"
  actor :: "('p, 'o) network"
  update_step :: nat

record td3_config =
  BATCH_SIZE :: nat
  GAMMA :: real
  TAU :: real
  UPDATE_SIGMA :: real
  UPDATE_CLIP :: real

text \<open>
  What \<^verbatim>\<open>optimize\<close> calls and the sources do not define: the replay memory's length and
  sampling, the rounding to float32, the networks' forward passes, torch's normal noise,
  mean squared error and mean, the gradient steps and the soft target update. A critic
  returns a column of float32 values, which can be infinite or nan. The random generator's
  state \<open>'r\<close> is threaded through the calls that draw from it. A gradient step works on
  the online network and its optimizer, as \<^verbatim>\<open>Agent.update\<close> of \<^verbatim>\<open>DQN/model.py\<close> does.
\<close>

record ('p, 'o, 'm, 'r) td3_ops =
  mem_len :: "'m \<Rightarrow> nat"
  mem_sample :: "'m \<Rightarrow> nat \<Rightarrow> 'r \<Rightarrow> pyval list list \<times> 'r"
  round32 :: "real \<Rightarrow> float32"
  critic_forward :: "'p \<Rightarrow> real list list \<Rightarrow> real list list \<Rightarrow> float32 list"
  actor_forward :: "'p \<Rightarrow> real list list \<Rightarrow> real list list"
  normal :: "real \<Rightarrow> nat \<Rightarrow> 'r \<Rightarrow> real list \<times> 'r"
  mse_loss :: "float32 list \<Rightarrow> float32 list \<Rightarrow> float32"
  tensor_mean :: "float32 list \<Rightarrow> float32"
  critic_step :: "('p, 'o) network \<Rightarrow> real list list \<Rightarrow> real list list \<Rightarrow> float32 list \<Rightarrow> 'p \<times> 'o"
  actor_step :: "('p, 'o) network \<Rightarrow> 'p \<Rightarrow> real list list \<Rightarrow> 'p \<times> 'o"
  update_targets :: "'p \<Rightarrow> 'p \<Rightarrow> real \<Rightarrow> 'p"

definition stepped :: "('p, 'o) network \<Rightarrow> 'p \<times> 'o \<Rightarrow> ('p, 'o) network" where
  "stepped net po = net\<lparr>nn := fst po, optimizer := snd po\<rparr>"

text \<open>
  \<^verbatim>\<open>TD3/model.py\<close>, lines 34-90. The result is the pair of losses, the model and the
  random generator after the call; an exception ends the call.
  \<^verbatim>\<open>
  if len(self.memory) < self.config["BATCH_SIZE"]:
      return None, None
  self.update_step += 1
  transitions = self.memory.sample(self.config["BATCH_SIZE"])
  ...
  self.critic_A.update(loss_critic_A, grad_clipping=False)
  self.critic_B.update(loss_critic_B, grad_clipping=False)
  if self.update_step % 2 == 0:
      loss_actor = -self.critic_A(states, self.actor(states)).mean()
      self.actor.update(loss_actor, grad_clipping=False)
      update_targets(self.actor.target_nn, self.actor.nn, self.config["TAU"])
      update_targets(self.critic_A.target_nn, self.critic_A.nn, self.config["TAU"])
      update_targets(self.critic_B.target_nn, self.critic_B.nn, self.config["TAU"])
      return loss_actor.item(), loss_critic_A.item()
  else:
      return None, loss_critic_A.item()
  \<close>
\<close>

definition soft_update ::
  "('p, 'o, 'm, 'r) td3_ops \<Rightarrow> real \<Rightarrow> ('p, 'o) network \<Rightarrow> ('p, 'o) network" where
  "soft_update ops tau net = net\<lparr>target_nn := update_targets ops (target_nn net) (nn net) tau\<rparr>"

definition td3_optimize ::
  "('p, 'o, 'm, 'r) td3_ops \<Rightarrow> td3_config \<Rightarrow> ('p, 'o, 'm) td3_model \<Rightarrow> 'r
     \<Rightarrow> py_error + ((float32 option \<times> float32 option) \<times> ('p, 'o, 'm) td3_model \<times> 'r)" where
  "td3_optimize ops cfg m rng =
     (if mem_len ops (td3_memory m) < BATCH_SIZE cfg then Inr ((None, None), m, rng)
      else
        let m1 = m\<lparr>update_step := update_step m + 1\<rparr>;
            (transitions, rng1) = mem_sample ops (td3_memory m1) (BATCH_SIZE cfg) rng
        in err_bind (td3_batch (round32 ops) transitions)
             (\<lambda>(states, actions, rewards, next_states, done).
        let current_Qa = critic_forward ops (nn (critic_A m1)) states actions;
            current_Qb = critic_forward ops (nn (critic_B m1)) states actions;
            next_actions0 = actor_forward ops (target_nn (actor m1)) next_states;
            (noise0, rng2) = normal ops (UPDATE_SIGMA cfg) (BATCH_SIZE cfg) rng1;
            noise = map (clamp (- UPDATE_CLIP cfg) (UPDATE_CLIP cfg)) noise0
        in err_bind (broadcast2 (\<lambda>a n. map (\<lambda>x. clamp (low_bound m1) (high_bound m1) (x + n)) a)
                       next_actions0 noise) (\<lambda>next_actions.
        let target_Qa = critic_forward ops (target_nn (critic_A m1)) next_states next_actions;
            target_Qb = critic_forward ops (target_nn (critic_B m1)) next_states next_actions
        in err_bind (td3_target (round32 ops) rewards done (GAMMA cfg) target_Qa target_Qb)
             (\<lambda>target_Q.
        let loss_critic_A = mse_loss ops current_Qa target_Q;
            loss_critic_B = mse_loss ops current_Qb target_Q;
            m2 = m1\<lparr>critic_A := stepped (critic_A m1)
                        (critic_step ops (critic_A m1) states actions target_Q)\<rparr>;
            m3 = m2\<lparr>critic_B := stepped (critic_B m2)
                        (critic_step ops (critic_B m2) states actions target_Q)\<rparr>
        in if update_step m3 mod 2 = 0 then
             let loss_actor = fl_neg (tensor_mean ops
                                (critic_forward ops (nn (critic_A m3)) states
                                   (actor_forward ops (nn (actor m3)) states)));
                 m4 = m3\<lparr>actor := stepped (actor m3)
                             (actor_step ops (actor m3) (nn (critic_A m3)) states)\<rparr>;
                 m5 = m4\<lparr>actor := soft_update ops (TAU cfg) (actor m4)\<rparr>;
                 m6 = m5\<lparr>critic_A := soft_update ops (TAU cfg) (critic_A m5)\<rparr>;
                 m7 = m6\<lparr>critic_B := soft_update ops (TAU cfg) (critic_B m6)\<rparr>
             in Inr ((Some loss_actor, Some loss_critic_A), m7, rng2)
           else Inr ((None, Some loss_critic_A), m3, rng2)))))"

section \<open>SAC: \<^verbatim>\<open>Model.optimize\<close>\<close>

text \<open>
  A network of \<^verbatim>\<open>SAC/model.py\<close> together with the Adam optimizer made for it (lines
  25-37); the target value network has none. The temperature \<^verbatim>\<open>log_alpha\<close>, its optimizer
  and \<^verbatim>\<open>target_entropy\<close> (lines 43-46) are used when AUTO_ALPHA is set.
\<close>

record ('p, 'o) sac_net =
  sac_nn :: 'p
  sac_optimizer :: 'o

record ('p, 'o, 'm) sac_model =
  sac_memory :: 'm
  value_net :: "('p, 'o) sac_net"
  target_value_net :: 'p
  soft_Q_net1 :: "('p, 'o) sac_net"
  soft_Q_net2 :: "('p, 'o) sac_net"
  soft_actor :: "('p, 'o) sac_net"
  log_alpha :: float32
  alpha_optimizer :: 'o
  target_entropy :: real

record sac_config =
  SAC_BATCH_SIZE :: nat
  SAC_GAMMA :: real
  SAC_TAU :: real
  AUTO_ALPHA :: bool

text \<open>
  What \<^verbatim>\<open>optimize\<close> calls and the sources do not define: the replay memory, the rounding
  to float32, the forward passes of the soft Q-networks and of the value networks, the
  policy's \<^verbatim>\<open>evaluate\<close> (new actions and their log-probabilities, drawn with the random
  generator), torch's \<^verbatim>\<open>exp\<close>, and the four gradient steps with the temperature's.
  A gradient step builds its loss from the tensors it is given and moves the network and
  its optimizer; it can raise (torch refuses a loss of mismatched shapes, or a backward
  pass through weights that a previous step has changed in place). \<^verbatim>\<open>mix_parameters\<close>
  is \<^verbatim>\<open>target*(1 - TAU) + param*TAU\<close> on every parameter.
\<close>

record ('p, 'o, 'm, 'r) sac_ops =
  sac_mem_len :: "'m \<Rightarrow> nat"
  sac_mem_sample :: "'m \<Rightarrow> nat \<Rightarrow> 'r \<Rightarrow> pyval list list \<times> 'r"
  sac_round32 :: "real \<Rightarrow> float32"
  soft_q_forward :: "'p \<Rightarrow> real list list \<Rightarrow> real list list \<Rightarrow> float32 list"
  value_forward :: "'p \<Rightarrow> real list list \<Rightarrow> float32 list"
  actor_evaluate :: "'p \<Rightarrow> real list list \<Rightarrow> 'r \<Rightarrow> (real list list \<times> float32 list) \<times> 'r"
  tensor_exp :: "float32 \<Rightarrow> float32"
  alpha_step :: "float32 \<times> 'o \<Rightarrow> float32 list \<Rightarrow> real \<Rightarrow> py_error + float32 \<times> 'o"
  soft_q_step :: "('p, 'o) sac_net \<Rightarrow> real list list \<Rightarrow> real list list \<Rightarrow> float32 list
                    \<Rightarrow> py_error + ('p, 'o) sac_net"
  value_step :: "('p, 'o) sac_net \<Rightarrow> real list list \<Rightarrow> float32 list \<Rightarrow> py_error + ('p, 'o) sac_net"
  soft_actor_step :: "('p, 'o) sac_net \<Rightarrow> 'p \<Rightarrow> real list list \<Rightarrow> float32 \<Rightarrow> float32 list
                        \<Rightarrow> py_error + ('p, 'o) sac_net"
  mix_parameters :: "'p \<Rightarrow> 'p \<Rightarrow> real \<Rightarrow> 'p"

text \<open>
  \<^verbatim>\<open>SAC/model.py\<close>, lines 48-108. The method returns \<^verbatim>\<open>None\<close> on every path, so the
  result is the model and the random generator after the call; an exception ends the call.
  \<^verbatim>\<open>
  if len(self.memory) < self.config["BATCH_SIZE"]:
      return
  transitions = self.memory.sample(self.config["BATCH_SIZE"])
  states, actions, rewards, next_states, done = list(zip(*transitions))
  ...
  new_actions, log_prob = self.soft_actor.evaluate(states)
  if self.config["AUTO_ALPHA"]:
      alpha_loss = -(self.log_alpha * (log_prob + self.target_entropy).detach()).mean()
      ... self.alpha_optimizer.step()
      alpha = self.log_alpha.exp()
  else:
      alpha = 0.2
  next_V = self.target_value_net(next_states)
  target_Q = rewards + (1 - done) * self.config["GAMMA"] * next_V
  expected_new_Q1 = self.soft_Q_net1(states, new_actions)
  expected_new_Q2 = self.soft_Q_net2(states, new_actions)
  expected_new_Q = torch.min(expected_new_Q1, expected_new_Q2)
  target_V = expected_new_Q - alpha * log_prob
  loss_Q1 = self.q_criterion1(current_Q1, target_Q.detach())
  loss_Q2 = self.q_criterion2(current_Q2, target_Q.detach())
  loss_V = self.value_criterion(current_V, target_V.detach())
  loss_actor = (alpha * log_prob - expected_new_Q1).mean()
  ... self.soft_q_optimizer1.step() ... self.soft_q_optimizer2.step()
  ... self.value_optimizer.step() ... self.soft_actor_optimizer.step()
  for target_param, param in zip(self.target_value_net.parameters(), self.value_net.parameters()):
      target_param.data.copy_(target_param.data*(1.0-self.config["TAU"]) + param.data*self.config["TAU"])
  \<close>
  The step of a soft Q-network gets the batch's states and actions (for \<^verbatim>\<open>current_Q\<close>)
  and \<^verbatim>\<open>target_Q\<close>; the value network's gets the states and \<^verbatim>\<open>target_V\<close>; the policy's
  gets the first soft Q-network as it is by then, the states, \<^verbatim>\<open>alpha\<close> and \<^verbatim>\<open>log_prob\<close>.
\<close>

definition sac_optimize ::
  "('p, 'o, 'm, 'r) sac_ops \<Rightarrow> sac_config \<Rightarrow> ('p, 'o, 'm) sac_model \<Rightarrow> 'r
     \<Rightarrow> py_error + (('p, 'o, 'm) sac_model \<times> 'r)" where
  "sac_optimize ops cfg m rng =
     (if sac_mem_len ops (sac_memory m) < SAC_BATCH_SIZE cfg then Inr (m, rng)
      else
        let (transitions, rng1) = sac_mem_sample ops (sac_memory m) (SAC_BATCH_SIZE cfg) rng
        in err_bind (sac_batch (sac_round32 ops) transitions)
             (\<lambda>(states, actions, rewards, next_states, done).
        let ((new_actions, log_prob), rng2) =
              actor_evaluate ops (sac_nn (soft_actor m)) states rng1
        in err_bind
             (if AUTO_ALPHA cfg then
                err_bind (alpha_step ops (log_alpha m, alpha_optimizer m) log_prob
                            (target_entropy m)) (\<lambda>la.
                Inr (m\<lparr>log_alpha := fst la, alpha_optimizer := snd la\<rparr>,
                     tensor_exp ops (fst la)))
              else Inr (m, Fin (1/5))) (\<lambda>(m1, alpha).
        let next_V = value_forward ops (target_value_net m1) next_states
        in err_bind (sac_target (sac_round32 ops) rewards done (SAC_GAMMA cfg) next_V)
             (\<lambda>target_Q.
        let expected_new_Q1 = soft_q_forward ops (sac_nn (soft_Q_net1 m1)) states new_actions;
            expected_new_Q2 = soft_q_forward ops (sac_nn (soft_Q_net2 m1)) states new_actions
        in err_bind (broadcast2 fl_min expected_new_Q1 expected_new_Q2) (\<lambda>expected_new_Q.
           err_bind (broadcast2 (\<lambda>q l. fl_sub (sac_round32 ops) q (fl_mul (sac_round32 ops) alpha l))
                       expected_new_Q log_prob) (\<lambda>target_V.
           err_bind (soft_q_step ops (soft_Q_net1 m1) states actions target_Q) (\<lambda>q1.
           err_bind (soft_q_step ops (soft_Q_net2 m1) states actions target_Q) (\<lambda>q2.
           err_bind (value_step ops (value_net m1) states target_V) (\<lambda>v.
           err_bind (soft_actor_step ops (soft_actor m1) (sac_nn q1) states alpha log_prob)
             (\<lambda>policy.
           Inr (m1\<lparr>soft_Q_net1 := q1, soft_Q_net2 := q2, value_net := v, soft_actor := policy,
                    target_value_net :=
                      mix_parameters ops (target_value_net m1) (sac_nn v) (SAC_TAU cfg)\<rparr>,
                rng2)))))))))))"


section \<open>DQN: \<^verbatim>\<open>Agent.update\<close> and \<^verbatim>\<open>Model.optimize_model\<close>\<close>

text \<open>\<^verbatim>\<open>Agent\<close> of \<^verbatim>\<open>DQN/model.py\<close>, lines 19-29: the online and the target network, the
  Adam optimizer and the learning-rate scheduler, which counts its steps.\<close>

record ('p, 'o) Agent =
  agent_nn :: 'p
  agent_target_nn :: 'p
  agent_optimizer :: 'o
  scheduler_steps :: nat

text \<open>The transitions that \<^verbatim>\<open>optimize_model\<close> reads: it uses the fields \<^verbatim>\<open>state\<close>,
  \<^verbatim>\<open>action\<close>, \<^verbatim>\<open>reward\<close> and \<^verbatim>\<open>next_state\<close> of the named tuple \<^verbatim>\<open>Transition\<close>, and a
  next state that is \<^verbatim>\<open>None\<close> marks a final transition.\<close>

record dqn_transition =
  t_state :: "real list"
  t_action :: nat
  t_reward :: real
  t_next_state :: "real list option"

record ('p, 'o, 'm) dqn_model =
  dqn_memory :: 'm
  agent :: "('p, 'o) Agent"

record dqn_config =
  DQN_BATCH_SIZE :: nat
  DQN_GAMMA :: real
  N_STEP :: nat
  DOUBLE_DQN :: bool
  GRAD_CLAMPING :: bool

text \<open>
  What the sources do not define: the replay memory, the network's forward pass (the
  Q-values of every action in one state), the Huber loss and the optimizer's step, which
  gets the flag of the gradient clamping, the learning-rate schedule's position and the
  batch the loss was built from.
\<close>

record ('p, 'o, 'm, 'r) dqn_ops =
  dqn_mem_len :: "'m \<Rightarrow> nat"
  dqn_mem_sample :: "'m \<Rightarrow> nat \<Rightarrow> 'r \<Rightarrow> dqn_transition list \<times> 'r"
  q_values :: "'p \<Rightarrow> real list \<Rightarrow> real list"
  smooth_l1_loss :: "real list \<Rightarrow> real list \<Rightarrow> real"
  optimizer_step :: "bool \<Rightarrow> nat \<Rightarrow> 'p \<Rightarrow> 'o \<Rightarrow> real list list \<Rightarrow> nat list \<Rightarrow> real list \<Rightarrow> 'p \<times> 'o"

text \<open>
  \<^verbatim>\<open>Agent.update\<close>, lines 47-54: one optimizer step on the online network, then one
  scheduler step.
\<close>

definition Agent_update ::
  "('p, 'o, 'm, 'r) dqn_ops \<Rightarrow> dqn_config \<Rightarrow> ('p, 'o) Agent
     \<Rightarrow> real list list \<Rightarrow> nat list \<Rightarrow> real list \<Rightarrow> ('p, 'o) Agent" where
  "Agent_update ops cfg a states actions expected =
     (let po = optimizer_step ops (GRAD_CLAMPING cfg) (scheduler_steps a)
                 (agent_nn a) (agent_optimizer a) states actions expected
      in a\<lparr>agent_nn := fst po, agent_optimizer := snd po,
            scheduler_steps := scheduler_steps a + 1\<rparr>)"

text \<open>\<^verbatim>\<open>.gather(1, action)\<close> on one row of Q-values, \<^verbatim>\<open>.max(1)\<close> of a row (its value and
  its first index), and the sequencing of a fallible function over a batch.\<close>

definition gather1 :: "real list \<Rightarrow> nat \<Rightarrow> py_error + real" where
  "gather1 qs a = (if a < length qs then Inr (qs ! a) else Inl RuntimeError)"

definition row_max :: "real list \<Rightarrow> py_error + real" where
  "row_max qs = (if qs = [] then Inl RuntimeError else Inr (fold max (tl qs) (hd qs)))"

definition row_argmax :: "real list \<Rightarrow> py_error + nat" where
  "row_argmax qs =
     (if qs = [] then Inl RuntimeError
      else Inr (length (takeWhile (\<lambda>q. q \<noteq> fold max (tl qs) (hd qs)) qs)))"

fun err_map :: "('a \<Rightarrow> py_error + 'b) \<Rightarrow> 'a list \<Rightarrow> py_error + 'b list" where
  "err_map f [] = Inr []"
| "err_map f (x # xs) =
     err_bind (f x) (\<lambda>y. err_bind (err_map f xs) (\<lambda>ys. Inr (y # ys)))"

text \<open>\<^verbatim>\<open>next_state_values[non_final_mask] = values\<close> on a tensor of zeros: the entries
  under the mask take the values in order.\<close>

fun masked_assign :: "bool list \<Rightarrow> real list \<Rightarrow> real list" where
  "masked_assign [] vs = []"
| "masked_assign (True # ms) (v # vs) = v # masked_assign ms vs"
| "masked_assign (True # ms) [] = 0 # masked_assign ms []"
| "masked_assign (False # ms) vs = 0 # masked_assign ms vs"

text \<open>
  \<^verbatim>\<open>DQN/model.py\<close>, lines 114-167. The method returns \<^verbatim>\<open>None\<close> on every path, so the
  result is the model and the random generator after the call.
  \<^verbatim>\<open>
  if len(self.memory) < self.config['BATCH_SIZE']:
      return
  transitions = self.memory.sample(self.config['BATCH_SIZE'])
  batch = Transition(*zip(*transitions))
  ...
  expected_state_action_values =
      (next_state_values * self.config['GAMMA']**self.config['N_STEP']) + reward_batch
  loss = F.smooth_l1_loss(state_action_values, expected_state_action_values)
  self.agent.update(loss)
  \<close>
  An empty batch cannot fill the named tuple (TypeError), and \<^verbatim>\<open>torch.cat\<close> of no
  non-final next states raises RuntimeError.
\<close>

definition optimize_model ::
  "('p, 'o, 'm, 'r) dqn_ops \<Rightarrow> dqn_config \<Rightarrow> ('p, 'o, 'm) dqn_model \<Rightarrow> 'r
     \<Rightarrow> py_error + (('p, 'o, 'm) dqn_model \<times> 'r)" where
  "optimize_model ops cfg m rng =
     (if dqn_mem_len ops (dqn_memory m) < DQN_BATCH_SIZE cfg then Inr (m, rng)
      else
        let (transitions, rng1) = dqn_mem_sample ops (dqn_memory m) (DQN_BATCH_SIZE cfg) rng
        in if transitions = [] then Inl TypeError
        else
          let non_final_mask = map (\<lambda>t. t_next_state t \<noteq> None) transitions;
              non_final_next_states = concat (map (\<lambda>t. case t_next_state t of None \<Rightarrow> [] | Some s \<Rightarrow> [s]) transitions)
          in if non_final_next_states = [] then Inl RuntimeError
          else
            let state_batch = map t_state transitions;
                action_batch = map t_action transitions;
                reward_batch = map t_reward transitions
            in err_bind (err_map (\<lambda>(s, a). gather1 (q_values ops (agent_nn (agent m)) s) a)
                           (zip state_batch action_batch)) (\<lambda>state_action_values.
               err_bind
                 (if DOUBLE_DQN cfg then
                    err_map (\<lambda>s. err_bind (row_argmax (q_values ops (agent_nn (agent m)) s))
                                    (gather1 (q_values ops (agent_target_nn (agent m)) s)))
                      non_final_next_states
                  else
                    err_map (\<lambda>s. row_max (q_values ops (agent_target_nn (agent m)) s))
                      non_final_next_states) (\<lambda>values.
               let next_state_values = masked_assign non_final_mask values
               in err_bind (broadcast2 (\<lambda>v r. v * DQN_GAMMA cfg ^ N_STEP cfg + r)
                              next_state_values reward_batch) (\<lambda>expected_state_action_values.
               Inr (m\<lparr>agent := Agent_update ops cfg (agent m) state_batch action_batch
                                  expected_state_action_values\<rparr>, rng1)))))"


section \<open>The training drivers\<close>

text \<open>
  \<^verbatim>\<open>DQN/train.py\<close> and \<^verbatim>\<open>commons/run_expe.py\<close> step an environment, push every
  transition into the model's replay memory and call the model's optimisation step. The
  environment, the model and the files they write are one opaque world \<open>'w\<close>; every call
  into it can raise, and a user's interrupt shows as a call raising KeyboardInterrupt.
\<close>

datatype call =
  FillArrayToBeSaved | ModelSave | EvaluateAndPlot | PlotRewards
  | PrintArrayInFiles | PlotTrainingOutput | EnvClose | FinishCFD

record 'w driver_ops =
  select_action :: "'w \<Rightarrow> pyval \<Rightarrow> nat \<Rightarrow> py_error + (pyval \<times> 'w)"
  env_reset :: "'w \<Rightarrow> py_error + (pyval \<times> 'w)"
  env_step :: "'w \<Rightarrow> pyval \<Rightarrow> py_error + ((pyval \<times> real \<times> bool) \<times> 'w)"
  memory_push :: "pyval list \<Rightarrow> 'w \<Rightarrow> py_error + 'w"
  model_optimize :: "'w \<Rightarrow> py_error + 'w"
  perform :: "call \<Rightarrow> 'w \<Rightarrow> py_error + 'w"

text \<open>
  What a driver did that the claims speak about, in order: the argument list of every
  \<^verbatim>\<open>model.memory.push(...)\<close> call, and every time the branch that forces
  \<^verbatim>\<open>done = True\<close> was taken. The trace is not a variable of the source; it records the
  run.
\<close>

datatype event = Push "pyval list" | ForceDone

text \<open>The variables of one episode: \<^verbatim>\<open>state\<close>, \<^verbatim>\<open>done\<close>, \<^verbatim>\<open>step\<close> and the episode's
  reward, with the world and the trace.\<close>

record 'w episode =
  world :: 'w
  ep_state :: pyval
  ep_done :: bool
  ep_step :: int
  ep_reward :: real
  trace :: "event list"

text \<open>
  The body of the episode loop of \<^verbatim>\<open>DQN/train.py\<close>, lines 82-100. The result is the
  exception that ended it, if any, and the variables as they were left.
  \<^verbatim>\<open>
  action = model.select_action(state, episode)
  next_state, reward, done, _ = env.step(action.item())
  ...
  current_reward += reward.item()
  if not done and step == config["MAX_STEPS"]:
      done = True
  model.memory.push(state, action, reward, next_state)#, 1-int(done))
  state = next_state
  loss = model.optimize(nb_episodes_done, step)
  step += 1
  \<close>
\<close>

definition dqn_loop_body ::
  "'w driver_ops \<Rightarrow> int \<Rightarrow> nat \<Rightarrow> 'w episode \<Rightarrow> py_error option \<times> 'w episode" where
  "dqn_loop_body ops MAX_STEPS episode s =
     (case select_action ops (world s) (ep_state s) episode of
        Inl e \<Rightarrow> (Some e, s)
      | Inr (act, w1) \<Rightarrow>
     (case env_step ops w1 act of
        Inl e \<Rightarrow> (Some e, s\<lparr>world := w1\<rparr>)
      | Inr ((nxt, rew, dn), w2) \<Rightarrow>
     let fire = (\<not> dn \<and> ep_step s = MAX_STEPS);
         s1 = s\<lparr>world := w2, ep_reward := ep_reward s + rew,
                ep_done := (if fire then True else dn),
                trace := trace s @ (if fire then [ForceDone] else [])\<rparr>
     in (case memory_push ops [ep_state s1, act, Num rew, nxt] w2 of
        Inl e \<Rightarrow> (Some e, s1)
      | Inr w3 \<Rightarrow>
     let s2 = s1\<lparr>world := w3, ep_state := nxt,
                 trace := trace s1 @ [Push [ep_state s1, act, Num rew, nxt]]\<rparr>
     in (case model_optimize ops w3 of
        Inl e \<Rightarrow> (Some e, s2)
      | Inr w4 \<Rightarrow> (None, s2\<lparr>world := w4, ep_step := ep_step s2 + 1\<rparr>)))))"

text \<open>\<^verbatim>\<open>while not done and step < config["MAX_STEPS"]:\<close> (line 80).\<close>

function dqn_episode_loop ::
  "'w driver_ops \<Rightarrow> int \<Rightarrow> nat \<Rightarrow> 'w episode \<Rightarrow> py_error option \<times> 'w episode" where
  "dqn_episode_loop ops MAX_STEPS episode s =
     (if \<not> ep_done s \<and> ep_step s < MAX_STEPS then
        (case dqn_loop_body ops MAX_STEPS episode s of
           (Some e, s') \<Rightarrow> (Some e, s')
         | (None, s') \<Rightarrow> dqn_episode_loop ops MAX_STEPS episode s')
      else (None, s))"
  by pat_completeness auto

lemma dqn_loop_body_step:
  "dqn_loop_body ops MAX_STEPS episode s = (None, s') \<Longrightarrow> ep_step s' = ep_step s + 1"
  by (auto simp: dqn_loop_body_def Let_def split: sum.splits prod.splits)

termination dqn_episode_loop
  by (relation "measure (\<lambda>(ops, MAX_STEPS, episode, s). nat (MAX_STEPS - ep_step s))")
    (auto dest: dqn_loop_body_step [OF sym])

declare dqn_episode_loop.simps [simp del]

text \<open>
  The body of the episode loop of \<^verbatim>\<open>commons/run_expe.py\<close>, lines 102-124.
  \<^verbatim>\<open>
  action = model.select_action(state, episode=episode)
  if config["GAME"]["id"] == "STARCCMexternalfiles":
      env.finishCFD()
  next_state, reward, done, _ = env.step(action)
  episode_reward += reward
  if config["GAME"]["id"] == "STARCCMexternalfiles":
      if not done and step == config["MAX_STEPS"] - 1:
          done = True
  model.memory.push(state, action, reward, next_state, done)
  state = next_state
  losses = model.optimize()
  step += 1
  \<close>
\<close>

record run_config =
  MAX_EPISODES :: nat
  MAX_STEPS :: int
  STARCCM :: bool
  FREQ_SAVE :: int
  FREQ_EVAL :: int
  FREQ_PLOT :: int

definition run_loop_body ::
  "'w driver_ops \<Rightarrow> run_config \<Rightarrow> nat \<Rightarrow> 'w episode \<Rightarrow> py_error option \<times> 'w episode" where
  "run_loop_body ops cfg episode s =
     (case select_action ops (world s) (ep_state s) episode of
        Inl e \<Rightarrow> (Some e, s)
      | Inr (act, w1) \<Rightarrow>
     (case (if STARCCM cfg then perform ops FinishCFD w1 else Inr w1) of
        Inl e \<Rightarrow> (Some e, s\<lparr>world := w1\<rparr>)
      | Inr w1' \<Rightarrow>
     (case env_step ops w1' act of
        Inl e \<Rightarrow> (Some e, s\<lparr>world := w1'\<rparr>)
      | Inr ((nxt, rew, dn), w2) \<Rightarrow>
     let fire = (STARCCM cfg \<and> \<not> dn \<and> ep_step s = MAX_STEPS cfg - 1);
         s1 = s\<lparr>world := w2, ep_reward := ep_reward s + rew,
                ep_done := (if fire then True else dn),
                trace := trace s @ (if fire then [ForceDone] else [])\<rparr>
     in (case memory_push ops [ep_state s1, act, Num rew, nxt, Bool (ep_done s1)] w2 of
        Inl e \<Rightarrow> (Some e, s1)
      | Inr w3 \<Rightarrow>
     let s2 = s1\<lparr>world := w3, ep_state := nxt,
                 trace := trace s1 @
                   [Push [ep_state s1, act, Num rew, nxt, Bool (ep_done s1)]]\<rparr>
     in (case model_optimize ops w3 of
        Inl e \<Rightarrow> (Some e, s2)
      | Inr w4 \<Rightarrow> (None, s2\<lparr>world := w4, ep_step := ep_step s2 + 1\<rparr>))))))"

function run_episode_loop ::
  "'w driver_ops \<Rightarrow> run_config \<Rightarrow> nat \<Rightarrow> 'w episode \<Rightarrow> py_error option \<times> 'w episode" where
  "run_episode_loop ops cfg episode s =
     (if \<not> ep_done s \<and> ep_step s < MAX_STEPS cfg then
        (case run_loop_body ops cfg episode s of
           (Some e, s') \<Rightarrow> (Some e, s')
         | (None, s') \<Rightarrow> run_episode_loop ops cfg episode s')
      else (None, s))"
  by pat_completeness auto

lemma run_loop_body_step:
  "run_loop_body ops cfg episode s = (None, s') \<Longrightarrow> ep_step s' = ep_step s + 1"
  by (auto simp: run_loop_body_def Let_def split: sum.splits prod.splits if_splits)

termination run_episode_loop
  by (relation "measure (\<lambda>(ops, cfg, episode, s). nat (MAX_STEPS cfg - ep_step s))")
    (auto dest: run_loop_body_step [OF sym])

declare run_episode_loop.simps [simp del]


text \<open>What the training run carries from one episode to the next: the world, the trace,
  whether \<^verbatim>\<open>loss\<close> has been assigned yet (DQN prints it after each episode) and the
  count of finished episodes.\<close>

record 'w training =
  tr_world :: 'w
  tr_trace :: "event list"
  loss_bound :: bool
  nb_episodes_done :: nat

definition new_training :: "'w \<Rightarrow> 'w training" where
  "new_training w = \<lparr>tr_world = w, tr_trace = [], loss_bound = False, nb_episodes_done = 0\<rparr>"

text \<open>
  One pass of the \<^verbatim>\<open>for episode in trange(config["MAX_EPISODES"])\<close> loop of
  \<^verbatim>\<open>DQN/train.py\<close>, lines 72-107: reset, the episode loop, the episode's report.
\<close>

definition dqn_episode ::
  "'w driver_ops \<Rightarrow> int \<Rightarrow> nat \<Rightarrow> 'w training \<Rightarrow> py_error option \<times> 'w training" where
  "dqn_episode ops max_steps episode t =
     (case env_reset ops (tr_world t) of
        Inl e \<Rightarrow> (Some e, t)
      | Inr (st, w) \<Rightarrow>
     (case dqn_episode_loop ops max_steps episode
             \<lparr>world = w, ep_state = st, ep_done = False, ep_step = 0, ep_reward = 0,
              trace = tr_trace t\<rparr> of
        (exc, s) \<Rightarrow>
     let t1 = t\<lparr>tr_world := world s, tr_trace := trace s,
                loss_bound := (loss_bound t \<or> 0 < ep_step s)\<rparr>
     in (case exc of
           Some e \<Rightarrow> (Some e, t1)
         | None \<Rightarrow>
             if \<not> loss_bound t1 then (Some UnboundLocalError, t1)
             else (None, t1\<lparr>nb_episodes_done := nb_episodes_done t1 + 1\<rparr>))))"

fun dqn_episodes ::
  "'w driver_ops \<Rightarrow> int \<Rightarrow> nat list \<Rightarrow> 'w training \<Rightarrow> py_error option \<times> 'w training" where
  "dqn_episodes ops max_steps [] t = (None, t)"
| "dqn_episodes ops max_steps (episode # rest) t =
     (case dqn_episode ops max_steps episode t of
        (Some e, t') \<Rightarrow> (Some e, t')
      | (None, t') \<Rightarrow> dqn_episodes ops max_steps rest t')"

text \<open>A sequence of calls, as a block of statements runs them: it stops at the first one
  that raises. The result lists the calls that were made.\<close>

fun run_calls ::
  "(call \<Rightarrow> 'w \<Rightarrow> py_error + 'w) \<Rightarrow> call list \<Rightarrow> 'w \<Rightarrow> call list \<times> py_error option \<times> 'w" where
  "run_calls exec [] w = ([], None, w)"
| "run_calls exec (c # cs) w =
     (case exec c w of
        Inl e \<Rightarrow> ([c], Some e, w)
      | Inr w' \<Rightarrow> (case run_calls exec cs w' of (made, exc, w'') \<Rightarrow> (c # made, exc, w'')))"

text \<open>What a training run leaves: the calls made in its \<^verbatim>\<open>finally\<close> block, the exception
  that leaves \<^verbatim>\<open>train\<close> (if any), the world and the trace.\<close>

record 'w train_result =
  finally_calls :: "call list"
  raised :: "py_error option"
  end_world :: 'w
  events :: "event list"

text \<open>
  \<^verbatim>\<open>train\<close> of \<^verbatim>\<open>DQN/train.py\<close>, lines 69-129, from the \<^verbatim>\<open>try\<close> on:
  \<^verbatim>\<open>
  try:
      for episode in trange(config["MAX_EPISODES"]): ...
  except KeyboardInterrupt:
      pass
  finally:
      model.save()
  ...
  'Average duration of one episode : ', round(time_execution/nb_episodes_done, 3), 's\n'
  \<close>
  An exception raised in the \<^verbatim>\<open>finally\<close> block replaces the pending one; a pending
  exception other than KeyboardInterrupt is raised again after the block; the statistics
  divide by the number of finished episodes.
\<close>

definition dqn_train :: "'w driver_ops \<Rightarrow> nat \<Rightarrow> int \<Rightarrow> 'w \<Rightarrow> 'w train_result" where
  "dqn_train ops max_episodes max_steps w =
     (case dqn_episodes ops max_steps [0..<max_episodes] (new_training w) of
        (exc, t) \<Rightarrow>
     let pending = (if exc = Some KeyboardInterrupt then None else exc)
     in (case run_calls (perform ops) [ModelSave] (tr_world t) of
        (made, fexc, w') \<Rightarrow>
          \<lparr>finally_calls = made,
           raised = (case fexc of
                       Some e \<Rightarrow> Some e
                     | None \<Rightarrow>
                       (case pending of
                          Some e \<Rightarrow> Some e
                        | None \<Rightarrow>
                            if nb_episodes_done t = 0 then Some ZeroDivisionError else None)),
           end_world = w', events = tr_trace t\<rparr>))"

text \<open>
  The end of an episode in \<^verbatim>\<open>commons/run_expe.py\<close>, lines 129-158: the environment
  stores its arrays, and the checkpoint, the evaluation and the plots run when the episode
  number is a multiple of their frequency (\<^verbatim>\<open>episode % config["FREQ_SAVE"] == 0\<close>; a
  frequency of zero raises ZeroDivisionError).
\<close>

fun run_due ::
  "'w driver_ops \<Rightarrow> int \<Rightarrow> (int option \<times> call) list \<Rightarrow> 'w \<Rightarrow> py_error option \<times> 'w" where
  "run_due ops episode [] w = (None, w)"
| "run_due ops episode ((freq, c) # rest) w =
     (case freq of
        Some f \<Rightarrow>
          if f = 0 then (Some ZeroDivisionError, w)
          else if episode mod f = 0 then
            (case perform ops c w of
               Inl e \<Rightarrow> (Some e, w) | Inr w' \<Rightarrow> run_due ops episode rest w')
          else run_due ops episode rest w
      | None \<Rightarrow>
          (case perform ops c w of
             Inl e \<Rightarrow> (Some e, w) | Inr w' \<Rightarrow> run_due ops episode rest w'))"

definition run_episode ::
  "'w driver_ops \<Rightarrow> run_config \<Rightarrow> nat \<Rightarrow> 'w training \<Rightarrow> py_error option \<times> 'w training" where
  "run_episode ops cfg episode t =
     (case env_reset ops (tr_world t) of
        Inl e \<Rightarrow> (Some e, t)
      | Inr (st, w) \<Rightarrow>
     (case run_episode_loop ops cfg episode
             \<lparr>world = w, ep_state = st, ep_done = False, ep_step = 0, ep_reward = 0,
              trace = tr_trace t\<rparr> of
        (exc, s) \<Rightarrow>
     let t1 = t\<lparr>tr_world := world s, tr_trace := trace s\<rparr>
     in (case exc of
           Some e \<Rightarrow> (Some e, t1)
         | None \<Rightarrow>
             (case run_due ops (int episode)
                     [(None, FillArrayToBeSaved), (Some (FREQ_SAVE cfg), ModelSave),
                      (Some (FREQ_EVAL cfg), EvaluateAndPlot),
                      (Some (FREQ_PLOT cfg), PlotRewards)] (world s) of
                (Some e, w') \<Rightarrow> (Some e, t1\<lparr>tr_world := w'\<rparr>)
              | (None, w') \<Rightarrow>
                  (None, t1\<lparr>tr_world := w',
                             nb_episodes_done := nb_episodes_done t1 + 1\<rparr>)))))"

fun run_episodes ::
  "'w driver_ops \<Rightarrow> run_config \<Rightarrow> nat list \<Rightarrow> 'w training \<Rightarrow> py_error option \<times> 'w training" where
  "run_episodes ops cfg [] t = (None, t)"
| "run_episodes ops cfg (episode # rest) t =
     (case run_episode ops cfg episode t of
        (Some e, t') \<Rightarrow> (Some e, t')
      | (None, t') \<Rightarrow> run_episodes ops cfg rest t')"

text \<open>
  \<^verbatim>\<open>train\<close> of \<^verbatim>\<open>commons/run_expe.py\<close>, lines 91-171, from the \<^verbatim>\<open>try\<close> on:
  \<^verbatim>\<open>
  except KeyboardInterrupt:
      pass
  finally:
      env.print_array_in_files(folder)
      env.plot_training_output(rewards, folder)
      env.close()
      model.save()
      if config["GAME"]["id"] == "STARCCMexternalfiles":
          env.finishCFD(True)
  \<close>
\<close>

definition run_train :: "'w driver_ops \<Rightarrow> run_config \<Rightarrow> 'w \<Rightarrow> 'w train_result" where
  "run_train ops cfg w =
     (case run_episodes ops cfg [0..<MAX_EPISODES cfg] (new_training w) of
        (exc, t) \<Rightarrow>
     let pending = (if exc = Some KeyboardInterrupt then None else exc)
     in (case run_calls (perform ops)
               ([PrintArrayInFiles, PlotTrainingOutput, EnvClose, ModelSave]
                @ (if STARCCM cfg then [FinishCFD] else [])) (tr_world t) of
        (made, fexc, w') \<Rightarrow>
          \<lparr>finally_calls = made,
           raised = (case fexc of Some e \<Rightarrow> Some e | None \<Rightarrow> pending),
           end_world = w', events = tr_trace t\<rparr>))"

text \<open>What the claims say of a pushed argument list: the five fields with the boolean
  \<^verbatim>\<open>done\<close> flag last, or the four fields without it.\<close>

fun five_fields :: "event \<Rightarrow> bool" where
  "five_fields (Push [s, a, Num r, n, Bool d]) = True"
| "five_fields (Push args) = False"
| "five_fields ForceDone = True"

fun four_fields :: "event \<Rightarrow> bool" where
  "four_fields (Push [s, a, Num r, n]) = True"
| "four_fields (Push args) = False"
| "four_fields ForceDone = True"


section \<open>Concrete inputs\<close>

text \<open>Small concrete collaborators and configurations on which the models are run. In
  them every real is taken for a float32 number, so the rounding is \<open>Fin\<close>.\<close>

fun fin_value :: "float32 \<Rightarrow> real" where
  "fin_value (Fin a) = a"
| "fin_value PInf = 0"
| "fin_value NInf = 0"
| "fin_value NaN = 0"

definition example_td3_ops :: "(real, nat, pyval list list, nat) td3_ops" where
  "example_td3_ops =
     \<lparr>mem_len = length,
      mem_sample = (\<lambda>m k r. (take k m, r + 1)),
      round32 = Fin,
      critic_forward = (\<lambda>p s a. map (\<lambda>x. Fin (p + sum_list x)) s),
      actor_forward = (\<lambda>p s. map (map (\<lambda>x. p * x)) s),
      normal = (\<lambda>sigma n r. (replicate n 0, r + 1)),
      mse_loss = (\<lambda>xs ys. Fin (sum_list (map2 (\<lambda>x y. (fin_value x - fin_value y)\<^sup>2) xs ys))),
      tensor_mean = (\<lambda>xs. Fin (sum_list (map fin_value xs) / real (length xs))),
      critic_step = (\<lambda>net s a t. (nn net + 1, optimizer net + 1)),
      actor_step = (\<lambda>net p s. (nn net + 2, optimizer net + 1)),
      update_targets = (\<lambda>t n tau. (1 - tau) * t + tau * n)\<rparr>"

definition example_td3_config :: td3_config where
  "example_td3_config =
     \<lparr>BATCH_SIZE = 2, GAMMA = 1/2, TAU = 1/2, UPDATE_SIGMA = 1, UPDATE_CLIP = 1\<rparr>"

definition example_transitions :: "(real list, real list) Transition list" where
  "example_transitions =
     [\<lparr>state = [2], action = [0], reward = 1, next_state = [4], done_flag = False\<rparr>,
      \<lparr>state = [4], action = [0], reward = 3, next_state = [6], done_flag = True\<rparr>]"

definition example_td3_model :: "pyval list list \<Rightarrow> (real, nat, pyval list list) td3_model" where
  "example_td3_model rows =
     \<lparr>td3_memory = rows, low_bound = -1, high_bound = 1,
      critic_A = \<lparr>nn = 0, target_nn = 0, optimizer = 0\<rparr>,
      critic_B = \<lparr>nn = 0, target_nn = 2, optimizer = 0\<rparr>,
      actor = \<lparr>nn = 0, target_nn = 0, optimizer = 0\<rparr>,
      update_step = 0\<rparr>"

text \<open>The model after the first and after the second call of \<^verbatim>\<open>optimize\<close> on it.\<close>

definition example_td3_model_1 :: "(real, nat, pyval list list) td3_model" where
  "example_td3_model_1 =
     \<lparr>td3_memory = map stored_row example_transitions, low_bound = -1, high_bound = 1,
      critic_A = \<lparr>nn = 1, target_nn = 0, optimizer = 1\<rparr>,
      critic_B = \<lparr>nn = 1, target_nn = 2, optimizer = 1\<rparr>,
      actor = \<lparr>nn = 0, target_nn = 0, optimizer = 0\<rparr>,
      update_step = 1\<rparr>"

definition example_td3_model_2 :: "(real, nat, pyval list list) td3_model" where
  "example_td3_model_2 =
     \<lparr>td3_memory = map stored_row example_transitions, low_bound = -1, high_bound = 1,
      critic_A = \<lparr>nn = 2, target_nn = 1, optimizer = 2\<rparr>,
      critic_B = \<lparr>nn = 2, target_nn = 2, optimizer = 2\<rparr>,
      actor = \<lparr>nn = 2, target_nn = 1, optimizer = 1\<rparr>,
      update_step = 2\<rparr>"

text \<open>
  Tabular networks, for runs in which the target handed to a gradient step can be read
  back: the parameters of a network are the column of values it returns, one per row of
  the batch, and a gradient step fits the network to its target exactly.
\<close>

definition tabular :: "float32 list \<Rightarrow> nat \<Rightarrow> float32 list" where
  "tabular p n = map (\<lambda>i. if i < length p then p ! i else Fin 0) [0..<n]"

definition mix :: "float32 list \<Rightarrow> float32 list \<Rightarrow> real \<Rightarrow> float32 list" where
  "mix t p tau = map2 (\<lambda>a b. fl_add Fin (fl_mul Fin a (Fin (1 - tau))) (fl_mul Fin b (Fin tau))) t p"

definition example_tabular_td3_ops :: "(float32 list, nat, pyval list list, nat) td3_ops" where
  "example_tabular_td3_ops =
     \<lparr>mem_len = length,
      mem_sample = (\<lambda>m k r. (take k m, r + 1)),
      round32 = Fin,
      critic_forward = (\<lambda>p s a. tabular p (length s)),
      actor_forward = (\<lambda>p s. map (\<lambda>x. [0]) s),
      normal = (\<lambda>sigma n r. (replicate n 0, r + 1)),
      mse_loss = (\<lambda>xs ys. foldr (fl_add Fin)
                    (map2 (\<lambda>x y. fl_mul Fin (fl_sub Fin x y) (fl_sub Fin x y)) xs ys) (Fin 0)),
      tensor_mean = (\<lambda>xs. foldr (fl_add Fin) xs (Fin 0)),
      critic_step = (\<lambda>net s a t. (t, optimizer net + 1)),
      actor_step = (\<lambda>net p s. (nn net, optimizer net + 1)),
      update_targets = mix\<rparr>"

definition example_tabular_td3_model ::
  "float32 list \<Rightarrow> float32 list \<Rightarrow> (float32 list, nat, pyval list list) td3_model" where
  "example_tabular_td3_model qa qb =
     \<lparr>td3_memory = map stored_row example_transitions, low_bound = -1, high_bound = 1,
      critic_A = \<lparr>nn = [Fin 0, Fin 0], target_nn = qa, optimizer = 0\<rparr>,
      critic_B = \<lparr>nn = [Fin 0, Fin 0], target_nn = qb, optimizer = 0\<rparr>,
      actor = \<lparr>nn = [], target_nn = [], optimizer = 0\<rparr>,
      update_step = 0\<rparr>"

text \<open>The same for SAC, with the fixed temperature.\<close>

definition example_sac_ops :: "(float32 list, nat, pyval list list, nat) sac_ops" where
  "example_sac_ops =
     \<lparr>sac_mem_len = length,
      sac_mem_sample = (\<lambda>m k r. (take k m, r + 1)),
      sac_round32 = Fin,
      soft_q_forward = (\<lambda>p s a. tabular p (length s)),
      value_forward = (\<lambda>p s. tabular p (length s)),
      actor_evaluate = (\<lambda>p s r. ((map (\<lambda>x. [0]) s, map (\<lambda>x. Fin 0) s), r + 1)),
      tensor_exp = (\<lambda>x. Fin 1),
      alpha_step = (\<lambda>la lp te. Inr (fst la, snd la + 1)),
      soft_q_step = (\<lambda>net s a t. Inr \<lparr>sac_nn = t, sac_optimizer = sac_optimizer net + 1\<rparr>),
      value_step = (\<lambda>net s t. Inr \<lparr>sac_nn = t, sac_optimizer = sac_optimizer net + 1\<rparr>),
      soft_actor_step = (\<lambda>net q s al lp. Inr (net\<lparr>sac_optimizer := sac_optimizer net + 1\<rparr>)),
      mix_parameters = mix\<rparr>"

definition example_sac_config :: sac_config where
  "example_sac_config = \<lparr>SAC_BATCH_SIZE = 2, SAC_GAMMA = 1/2, SAC_TAU = 1/2, AUTO_ALPHA = False\<rparr>"

definition example_sac_model :: "float32 list \<Rightarrow> (float32 list, nat, pyval list list) sac_model" where
  "example_sac_model v =
     \<lparr>sac_memory = map stored_row example_transitions,
      value_net = \<lparr>sac_nn = [Fin 0, Fin 0], sac_optimizer = 0\<rparr>,
      target_value_net = v,
      soft_Q_net1 = \<lparr>sac_nn = [Fin 0, Fin 0], sac_optimizer = 0\<rparr>,
      soft_Q_net2 = \<lparr>sac_nn = [Fin 0, Fin 0], sac_optimizer = 0\<rparr>,
      soft_actor = \<lparr>sac_nn = [], sac_optimizer = 0\<rparr>,
      log_alpha = Fin 0, alpha_optimizer = 0, target_entropy = -1\<rparr>"

definition example_dqn_ops :: "(real, nat, dqn_transition list, nat) dqn_ops" where
  "example_dqn_ops =
     \<lparr>dqn_mem_len = length,
      dqn_mem_sample = (\<lambda>m k r. (take k m, r + 1)),
      q_values = (\<lambda>p s. [p, p + sum_list s]),
      smooth_l1_loss = (\<lambda>xs ys. sum_list (map2 (\<lambda>x y. \<bar>x - y\<bar>) xs ys)),
      optimizer_step = (\<lambda>clamp_grad k p opt states actions expected. (p + 1, opt + 1))\<rparr>"

definition example_dqn_config :: dqn_config where
  "example_dqn_config =
     \<lparr>DQN_BATCH_SIZE = 2, DQN_GAMMA = 1/2, N_STEP = 3, DOUBLE_DQN = True,
      GRAD_CLAMPING = True\<rparr>"

definition example_dqn_model :: "dqn_transition list \<Rightarrow> (real, nat, dqn_transition list) dqn_model" where
  "example_dqn_model ts =
     \<lparr>dqn_memory = ts,
      agent = \<lparr>agent_nn = 1, agent_target_nn = 2, agent_optimizer = 0, scheduler_steps = 0\<rparr>\<rparr>"


text \<open>A small world for the drivers: the number of environment steps taken. The
  environment never ends an episode by itself; the action selection can be interrupted by
  the user from the second step on, and \<^verbatim>\<open>env.print_array_in_files\<close> can be missing.\<close>

definition example_driver_ops :: "bool \<Rightarrow> bool \<Rightarrow> nat driver_ops" where
  "example_driver_ops interrupted no_print =
     \<lparr>select_action = (\<lambda>w s episode.
        if interrupted \<and> 1 \<le> w then Inl KeyboardInterrupt else Inr (Idx 1, w)),
      env_reset = (\<lambda>w. Inr (Vec [0], 0)),
      env_step = (\<lambda>w a. Inr ((Vec [real (w + 1)], 1, False), w + 1)),
      memory_push = (\<lambda>args w. Inr w),
      model_optimize = (\<lambda>w. Inr w),
      perform = (\<lambda>c w. if no_print \<and> c = PrintArrayInFiles then Inl AttributeError else Inr w)\<rparr>"

definition example_run_config :: run_config where
  "example_run_config =
     \<lparr>MAX_EPISODES = 1, MAX_STEPS = 2, STARCCM = False, FREQ_SAVE = 10, FREQ_EVAL = 10,
      FREQ_PLOT = 10\<rparr>"

text \<open>The same world, interrupted, with an environment whose \<^verbatim>\<open>print_array_in_files\<close>
  fails in one state of the world only.\<close>

definition example_driver_ops_dump_fails_at :: "nat \<Rightarrow> nat driver_ops" where
  "example_driver_ops_dump_fails_at n =
     (example_driver_ops True False)
       \<lparr>perform := (\<lambda>c w. if c = PrintArrayInFiles \<and> w = n then Inl OSError else Inr w)\<rparr>"


section \<open>Properties of the replay buffer\<close>

lemma pushes_snoc: "pushes (ps @ [t]) m = push t (pushes ps m)"
  by (induction ps arbitrary: m) simp_all

lemma ring_inv_new: "0 < C \<Longrightarrow> ring_inv C [] (new_memory C)"
  by (simp add: ring_inv_def new_memory_def)

lemma ring_inv_push_filling:
  assumes inv: "ring_inv C ps m" and C: "0 < C" and lt: "length ps < C"
  shows "ring_inv C (ps @ [t]) (push t m)"
proof -
  from inv lt have mem: "memory m = ps" and cap: "capacity m = C"
    and pos: "position m = length ps"
    by (simp_all add: ring_inv_def)
  show ?thesis
  proof (cases "Suc (length ps) < C")
    case True
    then show ?thesis
      using mem cap pos lt by (simp add: ring_inv_def push_def)
  next
    case False
    with lt have eq: "Suc (length ps) = C" by simp
    then show ?thesis
      using mem cap pos lt by (simp add: ring_inv_def push_def ring_contents_def)
  qed
qed

lemma ring_inv_push_full:
  assumes inv: "ring_inv C ps m" and C: "0 < C" and ge: "C \<le> length ps"
  shows "ring_inv C (ps @ [t]) (push t m)"
proof -
  let ?p = "position m" and ?xs = "memory m"
  from inv ge have cap: "capacity m = C" and lenm: "length ?xs = C"
    and pos: "?p = length ps mod C"
    and cont: "drop ?p ?xs @ take ?p ?xs = drop (length ps - C) ps"
    by (auto simp: ring_inv_def ring_contents_def)
  from pos C have pC: "?p < C" by simp
  have dropp: "drop ?p ?xs = ?xs ! ?p # drop (Suc ?p) ?xs"
    using pC lenm by (simp add: Cons_nth_drop_Suc)
  have tail: "drop (Suc (length ps) - C) ps = drop (Suc ?p) ?xs @ take ?p ?xs"
  proof -
    have "drop (Suc (length ps) - C) ps = drop 1 (drop (length ps - C) ps)"
      using ge by (simp add: Suc_diff_le)
    also have "\<dots> = drop 1 (drop ?p ?xs @ take ?p ?xs)"
      by (simp only: cont)
    also have "\<dots> = drop (Suc ?p) ?xs @ take ?p ?xs"
      by (simp add: dropp)
    finally show ?thesis .
  qed
  have new_pos: "(length ps + 1) mod C = (?p + 1) mod C"
    by (simp add: pos mod_Suc_eq)
  have contents:
    "drop ((?p + 1) mod C) (?xs[?p := t]) @ take ((?p + 1) mod C) (?xs[?p := t])
       = drop (Suc ?p) ?xs @ take ?p ?xs @ [t]"
  proof (cases "Suc ?p < C")
    case True
    then have "(?p + 1) mod C = Suc ?p" by simp
    then show ?thesis
      using pC lenm by (simp add: take_Suc_conv_app_nth)
  next
    case False
    with pC have last: "Suc ?p = C" by simp
    then have "(?p + 1) mod C = 0" by simp
    moreover have "?xs[?p := t] = take ?p ?xs @ [t]"
      using last lenm by (simp add: upd_conv_take_nth_drop)
    ultimately show ?thesis
      using last lenm by simp
  qed
  have "ring_contents (push t m) = drop (length (ps @ [t]) - C) (ps @ [t])"
    using ge C cap lenm contents tail
    by (simp add: ring_contents_def push_def Suc_diff_le)
  moreover have "position (push t m) = length (ps @ [t]) mod C"
    using cap new_pos by (simp add: push_def)
  moreover have "length (memory (push t m)) = min (length (ps @ [t])) C"
    using cap lenm ge by (simp add: push_def)
  moreover have "capacity (push t m) = C"
    using cap by (simp add: push_def)
  ultimately show ?thesis
    using ge by (simp add: ring_inv_def)
qed

lemma ring_inv_pushes: "0 < C \<Longrightarrow> ring_inv C ps (pushes ps (new_memory C))"
proof (induction ps rule: rev_induct)
  case Nil
  then show ?case by (simp add: ring_inv_new)
next
  case (snoc t ps)
  then have inv: "ring_inv C ps (pushes ps (new_memory C))" by simp
  show ?case
  proof (cases "length ps < C")
    case True
    from ring_inv_push_filling [OF inv snoc.prems True]
    show ?thesis by (simp add: pushes_snoc)
  next
    case False
    then have "C \<le> length ps" by simp
    from ring_inv_push_full [OF inv snoc.prems this]
    show ?thesis by (simp add: pushes_snoc)
  qed
qed

text \<open>
  Claim C2. For every sequence of pushes into a replay buffer created with a (positive)
  capacity \<open>C\<close>: \<open>len\<close> never exceeds \<open>C\<close>; while at most \<open>C\<close> entries have been pushed,
  \<open>len\<close> is the number of pushes and the buffer holds exactly what was pushed; after more
  than \<open>C\<close> pushes \<open>len\<close> stays at \<open>C\<close> and the buffer, read from the write cursor round
  the ring, is exactly the \<open>C\<close> most recently pushed transitions in the order they were
  pushed, so the slot overwritten next is the oldest one.
\<close>

theorem replay_memory_ring_buffer:
  assumes "0 < C"
  shows "len (pushes ps (new_memory C)) \<le> C
    \<and> (length ps \<le> C \<longrightarrow>
          len (pushes ps (new_memory C)) = length ps \<and> memory (pushes ps (new_memory C)) = ps)
    \<and> (C < length ps \<longrightarrow>
          len (pushes ps (new_memory C)) = C
          \<and> ring_contents (pushes ps (new_memory C)) = drop (length ps - C) ps
          \<and> mset (memory (pushes ps (new_memory C))) = mset (drop (length ps - C) ps))"
proof -
  let ?m = "pushes ps (new_memory C)"
  have inv: "ring_inv C ps ?m" by (rule ring_inv_pushes [OF assms])
  have le: "len ?m \<le> C"
    using inv by (simp add: ring_inv_def len_def)
  have small: "length ps \<le> C \<longrightarrow> len ?m = length ps \<and> memory ?m = ps"
  proof
    assume "length ps \<le> C"
    show "len ?m = length ps \<and> memory ?m = ps"
    proof (cases "length ps < C")
      case True
      with inv show ?thesis by (simp add: ring_inv_def len_def)
    next
      case False
      with \<open>length ps \<le> C\<close> have eq: "length ps = C" by simp
      with inv have "position ?m = 0" and "ring_contents ?m = ps"
        by (simp_all add: ring_inv_def)
      then have "memory ?m = ps" by (simp add: ring_contents_def)
      with eq show ?thesis by (simp add: len_def)
    qed
  qed
  have big: "C < length ps \<longrightarrow> len ?m = C
      \<and> ring_contents ?m = drop (length ps - C) ps
      \<and> mset (memory ?m) = mset (drop (length ps - C) ps)"
  proof
    assume gt: "C < length ps"
    with inv have l: "len ?m = C" and c: "ring_contents ?m = drop (length ps - C) ps"
      by (simp_all add: ring_inv_def len_def)
    have "mset (ring_contents ?m) = mset (memory ?m)"
      unfolding ring_contents_def
      by (metis append_take_drop_id mset_append union_commute)
    with l c show "len ?m = C \<and> ring_contents ?m = drop (length ps - C) ps
      \<and> mset (memory ?m) = mset (drop (length ps - C) ps)"
      by simp
  qed
  from le small big show ?thesis by blast
qed

theorem replay_memory_ring_buffer_witness:
  "len (pushes [10, 20, 30 :: nat] (new_memory 2)) = 2
   \<and> ring_contents (pushes [10, 20, 30 :: nat] (new_memory 2)) = [20, 30]
   \<and> memory (pushes [10, 20, 30 :: nat] (new_memory 2)) = [30, 20]"
  using replay_memory_ring_buffer [of 2 "[10, 20, 30 :: nat]"]
  by (simp add: push_def new_memory_def)

subsection \<open>Sampling\<close>

lemma draw_with_replacement_length: "length (draw_with_replacement rng k pool) = k"
  by (simp add: draw_with_replacement_def)

lemma draw_with_replacement_set:
  "pool \<noteq> [] \<or> k = 0 \<Longrightarrow> set (draw_with_replacement rng k pool) \<subseteq> set pool"
  by (auto simp: draw_with_replacement_def)

lemma length_remove_nth: "i < length pool \<Longrightarrow> length (take i pool @ drop (Suc i) pool) = length pool - 1"
  by simp

lemma draw_without_replacement_length:
  "k \<le> length pool \<Longrightarrow> length (draw_without_replacement rng k pool) = k"
proof (induction k arbitrary: pool)
  case 0
  then show ?case by simp
next
  case (Suc k)
  then have ne: "pool \<noteq> []" by auto
  let ?i = "rng k mod length pool"
  from ne have i: "?i < length pool" by simp
  then have "k \<le> length (take ?i pool @ drop (Suc ?i) pool)"
    using Suc.prems by simp
  from Suc.IH [OF this] ne show ?case by (simp add: Let_def)
qed

lemma draw_without_replacement_mset:
  "mset (draw_without_replacement rng k pool) \<subseteq># mset pool"
proof (induction k arbitrary: pool)
  case 0
  then show ?case by simp
next
  case (Suc k)
  show ?case
  proof (cases "pool = []")
    case True
    then show ?thesis by simp
  next
    case False
    let ?i = "rng k mod length pool"
    let ?rest = "take ?i pool @ drop (Suc ?i) pool"
    from False have i: "?i < length pool" by simp
    have split: "mset pool = add_mset (pool ! ?i) (mset ?rest)"
    proof -
      have "pool = take ?i pool @ pool ! ?i # drop (Suc ?i) pool"
        using i by (simp add: id_take_nth_drop [symmetric])
      then have "mset pool = mset (take ?i pool @ pool ! ?i # drop (Suc ?i) pool)"
        by simp
      then show ?thesis by simp
    qed
    have "mset (draw_without_replacement rng k ?rest) \<subseteq># mset ?rest"
      by (rule Suc.IH)
    then show ?thesis
      using False split by (simp add: Let_def)
  qed
qed

lemma draw_without_replacement_set:
  "set (draw_without_replacement rng k pool) \<subseteq> set pool"
  by (metis draw_without_replacement_mset set_mset_mono set_mset_mset)

text \<open>
  Claim C5. For every \<open>k\<close> with \<open>k \<le> len\<close>, \<open>sample k\<close> returns exactly \<open>k\<close> transitions,
  and each of them is one of the entries stored in the buffer at that moment; this holds for
  both configurations of the draw (with or without replacement) and every random stream.
\<close>

theorem sample_returns_stored_entries:
  assumes "k \<le> len m"
  shows "\<exists>ts. sample with_replacement rng m k = Some ts
           \<and> length ts = k \<and> set ts \<subseteq> set (memory m)"
proof (cases with_replacement)
  case True
  have "memory m \<noteq> [] \<or> k = 0"
    using assms by (auto simp: len_def)
  then have "set (draw_with_replacement rng k (memory m)) \<subseteq> set (memory m)"
    by (rule draw_with_replacement_set)
  then show ?thesis
    using True assms by (simp add: sample_def draw_with_replacement_length)
next
  case False
  have "length (draw_without_replacement rng k (memory m)) = k"
    using assms by (simp add: draw_without_replacement_length len_def)
  then show ?thesis
    using False assms by (simp add: sample_def draw_without_replacement_set)
qed

theorem sample_returns_stored_entries_witness:
  "2 \<le> len (pushes [10, 20, 30 :: nat] (new_memory 3))
   \<and> sample False (\<lambda>j. j + 4) (pushes [10, 20, 30 :: nat] (new_memory 3)) 2 = Some [30, 10]
   \<and> (\<exists>ts. sample False (\<lambda>j. j + 4) (pushes [10, 20, 30 :: nat] (new_memory 3)) 2 = Some ts
         \<and> length ts = 2 \<and> set ts \<subseteq> set (memory (pushes [10, 20, 30 :: nat] (new_memory 3))))"
proof -
  have h: "2 \<le> len (pushes [10, 20, 30 :: nat] (new_memory 3))"
    by code_simp
  have v: "sample False (\<lambda>j. j + 4) (pushes [10, 20, 30 :: nat] (new_memory 3)) 2 = Some [30, 10]"
    by code_simp
  from h v sample_returns_stored_entries [OF h, of False "\<lambda>j. j + 4"]
  show ?thesis by blast
qed

subsection \<open>N-step aggregation\<close>

lemma discounted_return_3: "discounted_return g [r0, r1, r2] = r0 + g * r1 + g\<^sup>2 * r2"
  by (simp add: discounted_return_def upt_rec numeral_2_eq_2 numeral_3_eq_3)

lemma discounted_return_2: "discounted_return g [r0, r1] = r0 + g * r1"
  by (simp add: discounted_return_def upt_rec numeral_2_eq_2)

text \<open>
  Claim C6. With window size \<open>n = 3\<close> and discount \<open>g\<close>, three consecutive raw transitions
  \<open>t0\<close>, \<open>t1\<close>, \<open>t2\<close> (none of the first two ending the episode) pushed into an empty window
  put exactly one aggregated transition into the main buffer: its reward is
  \<open>r0 + g * r1 + g\<^sup>2 * r2\<close>, its state is the state of \<open>t0\<close> and its next state the next
  state of \<open>t2\<close>. And a transition that ends the episode while the window is only partially
  filled is aggregated at once with what the window holds: the return is taken over the
  rewards accumulated so far only, and the window is flushed.
\<close>

theorem nstep_aggregation:
  assumes n: "n_step m = 3" and g: "gamma m = g" and empty: "window m = []"
    and t0: "\<not> done_flag t0" and t1: "\<not> done_flag t1"
    and part: "length (window m') + 1 < n_step m'" and ends: "done_flag t"
  shows "main (nstep_push t0 m) = main m
    \<and> main (nstep_push t1 (nstep_push t0 m)) = main m
    \<and> main (nstep_push t2 (nstep_push t1 (nstep_push t0 m)))
        = push \<lparr>state = state t0, action = action t0,
                 reward = reward t0 + g * reward t1 + g\<^sup>2 * reward t2,
                 next_state = next_state t2, done_flag = done_flag t2\<rparr> (main m)
    \<and> main (nstep_push t m') = push (aggregate (gamma m') (window m' @ [t])) (main m')
    \<and> reward (aggregate (gamma m') (window m' @ [t]))
        = discounted_return (gamma m') (map reward (window m') @ [reward t])
    \<and> length (map reward (window m') @ [reward t]) = length (window m') + 1
    \<and> window (nstep_push t m') = []"
proof -
  have a: "main (nstep_push t0 m) = main m" and wa: "window (nstep_push t0 m) = [t0]"
    and na: "n_step (nstep_push t0 m) = 3" and ga: "gamma (nstep_push t0 m) = g"
    using n g empty t0 by (simp_all add: nstep_push_def Let_def)
  have b: "main (nstep_push t1 (nstep_push t0 m)) = main m"
    and wb: "window (nstep_push t1 (nstep_push t0 m)) = [t0, t1]"
    and nb: "n_step (nstep_push t1 (nstep_push t0 m)) = 3"
    and gb: "gamma (nstep_push t1 (nstep_push t0 m)) = g"
    using a wa na ga t1 by (simp_all add: nstep_push_def Let_def)
  have c: "main (nstep_push t2 (nstep_push t1 (nstep_push t0 m)))
      = push (aggregate g [t0, t1, t2]) (main m)"
    using b wb nb gb by (simp add: nstep_push_def Let_def)
  have agg: "aggregate g [t0, t1, t2] = \<lparr>state = state t0, action = action t0,
      reward = reward t0 + g * reward t1 + g\<^sup>2 * reward t2,
      next_state = next_state t2, done_flag = done_flag t2\<rparr>"
    by (simp add: aggregate_def discounted_return_3)
  have d: "main (nstep_push t m') = push (aggregate (gamma m') (window m' @ [t])) (main m')"
    and e: "window (nstep_push t m') = []"
    using ends by (simp_all add: nstep_push_def Let_def)
  have f: "reward (aggregate (gamma m') (window m' @ [t]))
      = discounted_return (gamma m') (map reward (window m') @ [reward t])"
    by (simp add: aggregate_def)
  from a b c agg d e f show ?thesis by simp
qed

theorem nstep_aggregation_witness:
  "main (nstep_push \<lparr>state = 12::nat, action = 20::nat, reward = 4, next_state = 13, done_flag = False\<rparr>
     (nstep_push \<lparr>state = 11, action = 21, reward = 2, next_state = 12, done_flag = False\<rparr>
       (nstep_push \<lparr>state = 10, action = 21, reward = 1, next_state = 11, done_flag = False\<rparr>
         (new_dqn_memory 5 3 (1/2)))))
     = push \<lparr>state = 10, action = 21, reward = 3, next_state = 13, done_flag = False\<rparr> (new_memory 5)
   \<and> main (nstep_push \<lparr>state = 11::nat, action = 20::nat, reward = 8, next_state = 19, done_flag = True\<rparr>
       (nstep_push \<lparr>state = 10, action = 21, reward = 1, next_state = 11, done_flag = False\<rparr>
         (new_dqn_memory 5 3 (1/2))))
     = push \<lparr>state = 10, action = 21, reward = 5, next_state = 19, done_flag = True\<rparr> (new_memory 5)
   \<and> window (nstep_push \<lparr>state = 11::nat, action = 20::nat, reward = 8, next_state = 19, done_flag = True\<rparr>
       (nstep_push \<lparr>state = 10, action = 21, reward = 1, next_state = 11, done_flag = False\<rparr>
         (new_dqn_memory 5 3 (1/2)))) = []"
proof -
  let ?m = "new_dqn_memory 5 3 (1/2) :: (nat, nat) DQNReplayMemory"
  let ?a = "\<lparr>state = 10::nat, action = 21::nat, reward = 1, next_state = 11, done_flag = False\<rparr>"
  let ?b = "\<lparr>state = 11::nat, action = 21::nat, reward = 2, next_state = 12, done_flag = False\<rparr>"
  let ?c = "\<lparr>state = 12::nat, action = 20::nat, reward = 4, next_state = 13, done_flag = False\<rparr>"
  let ?d = "\<lparr>state = 11::nat, action = 20::nat, reward = 8, next_state = 19, done_flag = True\<rparr>"
  have w: "window (nstep_push ?a ?m) = [?a]" "n_step (nstep_push ?a ?m) = 3"
    "gamma (nstep_push ?a ?m) = 1/2" "main (nstep_push ?a ?m) = new_memory 5"
    by (simp_all add: nstep_push_def new_dqn_memory_def)
  have h0: "main ?m = new_memory 5"
    by (simp add: new_dqn_memory_def)
  have h1: "n_step ?m = 3" "gamma ?m = 1/2" "window ?m = []" "\<not> done_flag ?a" "\<not> done_flag ?b"
    by (simp_all add: new_dqn_memory_def)
  have h2: "length (window (nstep_push ?a ?m)) + 1 < n_step (nstep_push ?a ?m)" "done_flag ?d"
    by (simp_all add: w)
  from nstep_aggregation [OF h1 h2, of ?c]
  show ?thesis
    by (simp add: w h0 aggregate_def discounted_return_2 power2_eq_square)
qed

section \<open>Properties of the optimisation steps\<close>

subsection \<open>The warm-up gate\<close>

text \<open>
  Claim C1. Whenever the replay buffer holds fewer transitions than the configured batch
  size, the optimisation step is skipped and nothing is raised: \<^verbatim>\<open>optimize_model\<close>
  (DQN) and \<^verbatim>\<open>optimize\<close> (TD3) return at once, with no loss (TD3 returns the pair
  \<^verbatim>\<open>None, None\<close>), the model (memory, networks, optimizers, step counter) is exactly what
  it was, and the random generator is untouched, so the buffer was not sampled. This holds
  for every behaviour of the collaborators.
\<close>

theorem optimize_skipped_below_batch_size:
  "(dqn_mem_len dops (dqn_memory dm) < DQN_BATCH_SIZE dcfg
      \<longrightarrow> optimize_model dops dcfg dm drng = Inr (dm, drng))
   \<and> (mem_len ops (td3_memory m) < BATCH_SIZE cfg
      \<longrightarrow> td3_optimize ops cfg m rng = Inr ((None, None), m, rng))"
  by (simp add: optimize_model_def td3_optimize_def)

theorem optimize_skipped_below_batch_size_witness:
  "dqn_mem_len example_dqn_ops (dqn_memory (example_dqn_model [])) < DQN_BATCH_SIZE example_dqn_config
   \<and> optimize_model example_dqn_ops example_dqn_config (example_dqn_model []) 7
       = Inr (example_dqn_model [], 7)
   \<and> mem_len example_td3_ops (td3_memory (example_td3_model [stored_row (hd example_transitions)]))
       < BATCH_SIZE example_td3_config
   \<and> td3_optimize example_td3_ops example_td3_config
        (example_td3_model [stored_row (hd example_transitions)]) 7
       = Inr ((None, None), example_td3_model [stored_row (hd example_transitions)], 7)"
  using optimize_skipped_below_batch_size
    [of example_dqn_ops "example_dqn_model []" example_dqn_config 7
        example_td3_ops "example_td3_model [stored_row (hd example_transitions)]"
        example_td3_config 7]
  by (simp add: example_dqn_ops_def example_dqn_model_def example_dqn_config_def
      example_td3_ops_def example_td3_model_def example_td3_config_def)

subsection \<open>Concrete runs of TD3's \<^verbatim>\<open>optimize\<close>\<close>

lemma example_td3_batch:
  "td3_batch Fin (map stored_row example_transitions)
     = Inr ([[2], [4]], [[0], [0]], [Fin 1, Fin 3], [[4], [6]], [Fin 0, Fin 1])"
  by code_simp

lemma example_sac_batch:
  "sac_batch Fin (map stored_row example_transitions)
     = Inr ([[2], [4]], [[0], [0]], [Fin 1, Fin 3], [[4], [6]], [Fin 0, Fin 1])"
  by code_simp

lemma example_length: "length example_transitions = 2"
  by (simp add: example_transitions_def)

lemma example_take:
  "take (Suc (Suc 0)) (map stored_row example_transitions) = map stored_row example_transitions"
  by (simp add: example_transitions_def)

lemma example_td3_first_call:
  "td3_optimize example_td3_ops example_td3_config
     (example_td3_model (map stored_row example_transitions)) 0
     = Inr ((None, Some (Fin 5)), example_td3_model_1, 2)"
  by code_simp

lemma example_td3_second_call:
  "td3_optimize example_td3_ops example_td3_config example_td3_model_1 2
     = Inr ((Some (Fin (- 5)), Some (Fin 5)), example_td3_model_2, 4)"
  by code_simp

subsection \<open>The delayed actor update\<close>

text \<open>
  Claim C9. A call of TD3's \<^verbatim>\<open>optimize\<close> that is not skipped increments
  \<^verbatim>\<open>update_step\<close> by one. When the incremented counter is odd, the returned actor loss
  is \<^verbatim>\<open>None\<close> and the actor (online network, target network, optimizer) and both
  critics' target networks are what they were. When it is even, an actor loss is returned,
  the actor's online network has taken a gradient step and the three target networks have
  been moved by \<^verbatim>\<open>update_targets\<close> towards their online networks. The counter only
  changes in calls that are not skipped, so the actor and the targets are updated on every
  second such call.
\<close>

theorem td3_actor_updated_every_second_step:
  assumes "\<not> mem_len ops (td3_memory m) < BATCH_SIZE cfg"
    and "td3_optimize ops cfg m rng = Inr (res, m', rng')"
  shows "update_step m' = update_step m + 1
    \<and> (odd (update_step m') \<longrightarrow>
          fst res = None \<and> actor m' = actor m
          \<and> target_nn (critic_A m') = target_nn (critic_A m)
          \<and> target_nn (critic_B m') = target_nn (critic_B m))
    \<and> (even (update_step m') \<longrightarrow>
          fst res \<noteq> None
          \<and> (\<exists>states. nn (actor m') = fst (actor_step ops (actor m) (nn (critic_A m')) states))
          \<and> target_nn (actor m') = update_targets ops (target_nn (actor m)) (nn (actor m')) (TAU cfg)
          \<and> target_nn (critic_A m') = update_targets ops (target_nn (critic_A m)) (nn (critic_A m')) (TAU cfg)
          \<and> target_nn (critic_B m') = update_targets ops (target_nn (critic_B m)) (nn (critic_B m')) (TAU cfg))"
  using assms
  by (auto simp: td3_optimize_def err_bind_def Let_def soft_update_def stepped_def
      split: prod.splits sum.splits if_splits)

theorem td3_actor_updated_every_second_step_witness:
  "\<not> mem_len example_td3_ops (td3_memory (example_td3_model (map stored_row example_transitions)))
        < BATCH_SIZE example_td3_config
   \<and> td3_optimize example_td3_ops example_td3_config
        (example_td3_model (map stored_row example_transitions)) 0
       = Inr ((None, Some (Fin 5)), example_td3_model_1, 2)
   \<and> update_step example_td3_model_1 = 1
   \<and> actor example_td3_model_1 = actor (example_td3_model (map stored_row example_transitions))
   \<and> target_nn (critic_A example_td3_model_1) = 0
   \<and> target_nn (critic_B example_td3_model_1) = 2
   \<and> td3_optimize example_td3_ops example_td3_config example_td3_model_1 2
       = Inr ((Some (Fin (- 5)), Some (Fin 5)), example_td3_model_2, 4)
   \<and> update_step example_td3_model_2 = 2
   \<and> nn (actor example_td3_model_2) = 2
   \<and> target_nn (actor example_td3_model_2) = 1
   \<and> target_nn (critic_A example_td3_model_2) = 1"
proof -
  have h1: "\<not> mem_len example_td3_ops
      (td3_memory (example_td3_model (map stored_row example_transitions)))
        < BATCH_SIZE example_td3_config"
    by (simp add: example_td3_ops_def example_td3_model_def example_td3_config_def
        example_length)
  have h2: "\<not> mem_len example_td3_ops (td3_memory example_td3_model_1)
        < BATCH_SIZE example_td3_config"
    by (simp add: example_td3_ops_def example_td3_model_1_def example_td3_config_def
        example_length)
  from td3_actor_updated_every_second_step [OF h1 example_td3_first_call]
    td3_actor_updated_every_second_step [OF h2 example_td3_second_call]
    h1 example_td3_first_call example_td3_second_call
  show ?thesis
    by (simp add: example_td3_model_def example_td3_model_1_def example_td3_model_2_def)
qed

subsection \<open>The critic targets\<close>

lemma broadcast2_same: "length xs = length ys \<Longrightarrow> broadcast2 f xs ys = Inr (map2 f xs ys)"
  by (simp add: broadcast2_def)

lemma td3_target_same:
  assumes "length done = length rewards" "length qa = length rewards" "length qb = length rewards"
  shows "td3_target rnd rewards done g qa qb
    = Inr (map (\<lambda>(r, d, a, b). fl_add rnd r (fl_mul rnd (fl_mul rnd d (Fin g)) (fl_min a b)))
             (zip rewards (zip done (zip qa qb))))"
  using assms by (simp add: td3_target_def err_bind_def broadcast2_same zip_map2 case_prod_unfold)

lemma sac_target_same:
  assumes "length done = length rewards" "length v = length rewards"
  shows "sac_target rnd rewards done g v
    = Inr (map (\<lambda>(r, d, v). fl_add rnd r (fl_mul rnd (fl_mul rnd (fl_sub rnd (Fin 1) d) (Fin g)) v))
             (zip rewards (zip done v)))"
  using assms by (simp add: sac_target_def err_bind_def broadcast2_same zip_map2 case_prod_unfold)

text \<open>The masks on one row: what adding \<open>0 * GAMMA * q\<close> to a float32 reward gives.\<close>

lemma mask_zero:
  assumes "rnd 0 = Fin 0" and "\<forall>a. r = Fin a \<longrightarrow> rnd a = Fin a"
  shows "fl_add rnd r (fl_mul rnd (fl_mul rnd (Fin 0) (Fin g)) q)
    = (if is_finite q then r else NaN)"
  using assms by (cases q; cases r) simp_all

lemma sac_mask_one:
  assumes "rnd 0 = Fin 0" and "\<forall>a. r = Fin a \<longrightarrow> rnd a = Fin a"
  shows "fl_add rnd r (fl_mul rnd (fl_mul rnd (fl_sub rnd (Fin 1) (Fin 1)) (Fin g)) q)
    = (if is_finite q then r else NaN)"
  using assms by (cases q; cases r) (simp_all add: fl_sub_def)

lemma sac_mask_zero:
  assumes "rnd 1 = Fin 1"
  shows "fl_sub rnd (Fin 1) (Fin 0) = Fin 1"
  using assms by (simp add: fl_sub_def)

text \<open>The columns of a batch that the conversion accepts: one row per sampled item.\<close>

lemma foldr_min_le:
  "foldr (\<lambda>x k. min (length x) k) rs n \<le> n"
  "x \<in> set rs \<Longrightarrow> foldr (\<lambda>x k. min (length x) k) rs n \<le> length x"
  by (induction rs) auto

lemma py_zip_star_length_le:
  "row \<in> set rows \<Longrightarrow> length (py_zip_star rows) \<le> length row"
  by (cases rows) (auto simp: foldr_min_le)

lemma py_zip_star_nth:
  "i < length (py_zip_star rows) \<Longrightarrow> py_zip_star rows ! i = map (\<lambda>x. x ! i) rows"
  by (cases rows) simp_all

lemma py_index_Inr:
  "py_index xs i = Inr c \<longleftrightarrow> i < length xs \<and> c = xs ! i"
  by (auto simp: py_index_def)

lemma float_tensor_rows_length:
  "float_tensor_rows c = Inr s \<Longrightarrow> length s = length c"
  by (auto simp: float_tensor_rows_def split: if_splits)

lemma float_tensor_column_Inr:
  "float_tensor_column rnd c = Inr r \<Longrightarrow> r = map (\<lambda>x. the (as_float rnd x)) c"
  by (auto simp: float_tensor_column_def split: if_splits)

lemma td3_batch_columns:
  assumes "td3_batch rnd X = Inr (states, actions, rewards, next_states, done)"
  shows "X \<noteq> []" "\<forall>row \<in> set X. 5 \<le> length row"
    "length states = length X" "length actions = length X" "length next_states = length X"
    "rewards = map (\<lambda>row. the (as_float rnd (row ! 2))) X"
    "done = map (\<lambda>row. the (as_float rnd (row ! 4))) X"
proof -
  from assms obtain c0 c1 c2 c3 c4 where
    i: "py_index (py_zip_star X) 0 = Inr c0" "py_index (py_zip_star X) 1 = Inr c1"
       "py_index (py_zip_star X) 2 = Inr c2" "py_index (py_zip_star X) 3 = Inr c3"
       "py_index (py_zip_star X) 4 = Inr c4"
    and t: "float_tensor_rows c0 = Inr states" "float_tensor_rows c1 = Inr actions"
       "float_tensor_column rnd c2 = Inr rewards" "float_tensor_rows c3 = Inr next_states"
       "float_tensor_column rnd c4 = Inr done"
    by (auto simp: td3_batch_def err_bind_def Let_def split: sum.splits)
  from i have l: "4 < length (py_zip_star X)" by (simp add: py_index_Inr)
  then show "X \<noteq> []" by auto
  from l show "\<forall>row \<in> set X. 5 \<le> length row"
    using py_zip_star_length_le [of _ X] by fastforce
  from i l have c: "c0 = map (\<lambda>x. x ! 0) X" "c1 = map (\<lambda>x. x ! 1) X" "c2 = map (\<lambda>x. x ! 2) X"
      "c3 = map (\<lambda>x. x ! 3) X" "c4 = map (\<lambda>x. x ! 4) X"
    by (simp_all add: py_index_Inr py_zip_star_nth)
  from t c show "length states = length X" "length actions = length X"
      "length next_states = length X"
    by (auto dest: float_tensor_rows_length)
  from t c show "rewards = map (\<lambda>row. the (as_float rnd (row ! 2))) X"
      "done = map (\<lambda>row. the (as_float rnd (row ! 4))) X"
    by (auto dest: float_tensor_column_Inr)
qed

lemma unpack5_Inr:
  "unpack5 xs = Inr (a, b, c, d, e) \<longleftrightarrow> xs = [a, b, c, d, e]"
  by (auto simp: unpack5_def split: list.splits)

lemma sac_batch_columns:
  assumes "sac_batch rnd X = Inr (states, actions, rewards, next_states, done)"
  shows "X \<noteq> []" "\<forall>row \<in> set X. 5 \<le> length row"
    "length states = length X" "length actions = length X" "length next_states = length X"
    "rewards = map (\<lambda>row. the (as_float rnd (row ! 2))) X"
    "done = map (\<lambda>row. the (as_float rnd (row ! 4))) X"
proof -
  from assms obtain c0 c1 c2 c3 c4 where
    i: "py_zip_star X = [c0, c1, c2, c3, c4]"
    and t: "float_tensor_rows c0 = Inr states" "float_tensor_rows c1 = Inr actions"
       "float_tensor_column rnd c2 = Inr rewards" "float_tensor_rows c3 = Inr next_states"
       "float_tensor_column rnd c4 = Inr done"
    by (auto simp: sac_batch_def err_bind_def unpack5_Inr split: sum.splits prod.splits)
  from i have l: "length (py_zip_star X) = 5" by simp
  then show "X \<noteq> []" by auto
  from l show "\<forall>row \<in> set X. 5 \<le> length row"
    using py_zip_star_length_le [of _ X] by fastforce
  have "\<And>k. k < 5 \<Longrightarrow> [c0, c1, c2, c3, c4] ! k = map (\<lambda>x. x ! k) X"
    using l py_zip_star_nth [of _ X] unfolding i by simp
  from this [of 0] this [of 1] this [of 2] this [of 3] this [of 4]
  have c: "c0 = map (\<lambda>x. x ! 0) X" "c1 = map (\<lambda>x. x ! 1) X" "c2 = map (\<lambda>x. x ! 2) X"
      "c3 = map (\<lambda>x. x ! 3) X" "c4 = map (\<lambda>x. x ! 4) X"
    by simp_all
  from t c show "length states = length X" "length actions = length X"
      "length next_states = length X"
    by (auto dest: float_tensor_rows_length)
  from t c show "rewards = map (\<lambda>row. the (as_float rnd (row ! 2))) X"
      "done = map (\<lambda>row. the (as_float rnd (row ! 4))) X"
    by (auto dest: float_tensor_column_Inr)
qed

text \<open>What a call that is not skipped and returns has computed on its way.\<close>

lemma td3_optimize_steps:
  assumes "\<not> mem_len ops (td3_memory m) < BATCH_SIZE cfg"
    and "td3_optimize ops cfg m rng = Inr (res, m', rng')"
  shows "\<exists>states actions rewards next_states done next_actions target_Q.
      td3_batch (round32 ops) (fst (mem_sample ops (td3_memory m) (BATCH_SIZE cfg) rng))
        = Inr (states, actions, rewards, next_states, done)
    \<and> broadcast2 (\<lambda>a n. map (\<lambda>x. clamp (low_bound m) (high_bound m) (x + n)) a)
        (actor_forward ops (target_nn (actor m)) next_states)
        (map (clamp (- UPDATE_CLIP cfg) (UPDATE_CLIP cfg))
           (fst (normal ops (UPDATE_SIGMA cfg) (BATCH_SIZE cfg)
                   (snd (mem_sample ops (td3_memory m) (BATCH_SIZE cfg) rng)))))
        = Inr next_actions
    \<and> td3_target (round32 ops) rewards done (GAMMA cfg)
        (critic_forward ops (target_nn (critic_A m)) next_states next_actions)
        (critic_forward ops (target_nn (critic_B m)) next_states next_actions)
        = Inr target_Q
    \<and> nn (critic_A m') = fst (critic_step ops (critic_A m) states actions target_Q)
    \<and> nn (critic_B m') = fst (critic_step ops (critic_B m) states actions target_Q)
    \<and> snd res = Some (mse_loss ops (critic_forward ops (nn (critic_A m)) states actions) target_Q)"
  using assms
  by (auto simp: td3_optimize_def err_bind_def Let_def soft_update_def stepped_def
      split: prod.splits sum.splits if_splits)

lemma sac_optimize_steps:
  assumes "\<not> sac_mem_len ops (sac_memory m) < SAC_BATCH_SIZE cfg"
    and "sac_optimize ops cfg m rng = Inr (m', rng')"
  shows "\<exists>states actions rewards next_states done target_Q.
      sac_batch (sac_round32 ops) (fst (sac_mem_sample ops (sac_memory m) (SAC_BATCH_SIZE cfg) rng))
        = Inr (states, actions, rewards, next_states, done)
    \<and> sac_target (sac_round32 ops) rewards done (SAC_GAMMA cfg)
        (value_forward ops (target_value_net m) next_states) = Inr target_Q
    \<and> soft_q_step ops (soft_Q_net1 m) states actions target_Q = Inr (soft_Q_net1 m')
    \<and> soft_q_step ops (soft_Q_net2 m) states actions target_Q = Inr (soft_Q_net2 m')"
  using assms
  by (auto simp: sac_optimize_def err_bind_def Let_def
      split: prod.splits sum.splits if_splits)

lemma as_float_rounded:
  assumes "float32_rounding rnd" and "as_float rnd v = Some (Fin a)"
  shows "rnd a = Fin a"
  using assms by (cases v) (auto simp: float32_rounding_def split: if_splits)

lemma float_tensor_column_rounded:
  assumes "float32_rounding rnd" and "float_tensor_column rnd c = Inr es" and "i < length es"
    and "es ! i = Fin a"
  shows "rnd a = Fin a"
proof -
  from assms(2) have e: "es = map (\<lambda>x. the (as_float rnd x)) c"
    and n: "\<forall>x \<in> set c. as_float rnd x \<noteq> None"
    by (auto simp: float_tensor_column_def split: if_splits)
  from e assms(3) have "i < length c" by simp
  with n have "as_float rnd (c ! i) \<noteq> None" by simp
  then obtain e' where s: "as_float rnd (c ! i) = Some e'" by blast
  with e \<open>i < length c\<close> assms(4) have "e' = Fin a" by simp
  with s assms(1) show ?thesis by (auto intro: as_float_rounded)
qed

lemma td3_batch_rounded:
  assumes "float32_rounding rnd"
    and "td3_batch rnd X = Inr (states, actions, rewards, next_states, done)"
    and "i < length rewards" and "rewards ! i = Fin a"
  shows "rnd a = Fin a"
proof -
  from assms(2) obtain c2 where "float_tensor_column rnd c2 = Inr rewards"
    by (auto simp: td3_batch_def err_bind_def Let_def split: sum.splits)
  from float_tensor_column_rounded [OF assms(1) this assms(3,4)] show ?thesis .
qed

lemma sac_batch_rounded:
  assumes "float32_rounding rnd"
    and "sac_batch rnd X = Inr (states, actions, rewards, next_states, done)"
    and "i < length rewards" and "rewards ! i = Fin a"
  shows "rnd a = Fin a"
proof -
  from assms(2) obtain c2 where "float_tensor_column rnd c2 = Inr rewards"
    by (auto simp: sac_batch_def err_bind_def split: sum.splits prod.splits)
  from float_tensor_column_rounded [OF assms(1) this assms(3,4)] show ?thesis .
qed

lemma stored_row_entries:
  "the (as_float rnd (stored_row t ! 2)) = rnd (reward t)"
  "the (as_float rnd (stored_row t ! 4)) = Fin (if done_flag t then 1 else 0)"
  by (simp_all add: stored_row_def)

lemma td3_critic_target:
  assumes "\<not> mem_len ops (td3_memory m) < BATCH_SIZE cfg"
    and "td3_optimize ops cfg m rng = Inr (res, m', rng')"
  shows "let S = mem_sample ops (td3_memory m) (BATCH_SIZE cfg) rng; X = fst S;
             rnd = round32 ops
         in \<exists>states actions rewards next_states done next_actions target_Q.
           let Qa = critic_forward ops (target_nn (critic_A m)) next_states next_actions;
               Qb = critic_forward ops (target_nn (critic_B m)) next_states next_actions
           in td3_batch rnd X = Inr (states, actions, rewards, next_states, done)
            \<and> broadcast2 (\<lambda>a n. map (\<lambda>x. clamp (low_bound m) (high_bound m) (x + n)) a)
                (actor_forward ops (target_nn (actor m)) next_states)
                (map (clamp (- UPDATE_CLIP cfg) (UPDATE_CLIP cfg))
                   (fst (normal ops (UPDATE_SIGMA cfg) (BATCH_SIZE cfg) (snd S))))
                = Inr next_actions
            \<and> td3_target rnd rewards done (GAMMA cfg) Qa Qb = Inr target_Q
            \<and> nn (critic_A m') = fst (critic_step ops (critic_A m) states actions target_Q)
            \<and> nn (critic_B m') = fst (critic_step ops (critic_B m) states actions target_Q)
            \<and> snd res = Some (mse_loss ops (critic_forward ops (nn (critic_A m)) states actions)
                                target_Q)
            \<and> length rewards = length X \<and> length done = length X
            \<and> (\<forall>i t. i < length X \<and> X ! i = stored_row t
                  \<longrightarrow> rewards ! i = rnd (reward t)
                      \<and> done ! i = Fin (if done_flag t then 1 else 0))
            \<and> (length Qa = length X \<and> length Qb = length X
                 \<longrightarrow> length target_Q = length X
                   \<and> (\<forall>i < length X.
                        target_Q ! i
                          = fl_add rnd (rewards ! i)
                              (fl_mul rnd (fl_mul rnd (done ! i) (Fin (GAMMA cfg)))
                                 (fl_min (Qa ! i) (Qb ! i)))
                        \<and> (float32_rounding rnd \<and> done ! i = Fin 0
                             \<longrightarrow> target_Q ! i
                               = (if is_finite (fl_min (Qa ! i) (Qb ! i)) then rewards ! i
                                  else NaN))))"
proof -
  let ?X = "fst (mem_sample ops (td3_memory m) (BATCH_SIZE cfg) rng)"
  let ?rnd = "round32 ops"
  from td3_optimize_steps [OF assms]
  obtain states actions rewards next_states dn next_actions target_Q where
    b: "td3_batch ?rnd ?X = Inr (states, actions, rewards, next_states, dn)"
    and na: "broadcast2 (\<lambda>a n. map (\<lambda>x. clamp (low_bound m) (high_bound m) (x + n)) a)
        (actor_forward ops (target_nn (actor m)) next_states)
        (map (clamp (- UPDATE_CLIP cfg) (UPDATE_CLIP cfg))
           (fst (normal ops (UPDATE_SIGMA cfg) (BATCH_SIZE cfg)
                   (snd (mem_sample ops (td3_memory m) (BATCH_SIZE cfg) rng)))))
        = Inr next_actions"
    and tq: "td3_target ?rnd rewards dn (GAMMA cfg)
        (critic_forward ops (target_nn (critic_A m)) next_states next_actions)
        (critic_forward ops (target_nn (critic_B m)) next_states next_actions)
        = Inr target_Q"
    and st1: "nn (critic_A m') = fst (critic_step ops (critic_A m) states actions target_Q)"
    and st2: "nn (critic_B m') = fst (critic_step ops (critic_B m) states actions target_Q)"
    and st3: "snd res
        = Some (mse_loss ops (critic_forward ops (nn (critic_A m)) states actions) target_Q)"
    by blast
  let ?Qa = "critic_forward ops (target_nn (critic_A m)) next_states next_actions"
  let ?Qb = "critic_forward ops (target_nn (critic_B m)) next_states next_actions"
  note cols = td3_batch_columns [OF b]
  have lr: "length rewards = length ?X" and ld: "length dn = length ?X"
    using cols(6,7) by simp_all
  have rows: "\<forall>i t. i < length ?X \<and> ?X ! i = stored_row t
      \<longrightarrow> rewards ! i = ?rnd (reward t) \<and> dn ! i = Fin (if done_flag t then 1 else 0)"
    using cols(6,7) by (simp add: stored_row_entries)
  have tgt: "length ?Qa = length ?X \<and> length ?Qb = length ?X
      \<longrightarrow> length target_Q = length ?X
      \<and> (\<forall>i < length ?X.
            target_Q ! i
              = fl_add ?rnd (rewards ! i)
                  (fl_mul ?rnd (fl_mul ?rnd (dn ! i) (Fin (GAMMA cfg))) (fl_min (?Qa ! i) (?Qb ! i)))
            \<and> (float32_rounding ?rnd \<and> dn ! i = Fin 0
                 \<longrightarrow> target_Q ! i
                   = (if is_finite (fl_min (?Qa ! i) (?Qb ! i)) then rewards ! i else NaN)))"
  proof
    assume l: "length ?Qa = length ?X \<and> length ?Qb = length ?X"
    with lr ld have e: "length dn = length rewards" "length ?Qa = length rewards"
        "length ?Qb = length rewards"
      by simp_all
    from tq td3_target_same [OF e, of ?rnd "GAMMA cfg"]
    have t: "target_Q = map (\<lambda>(r, d, a, b).
          fl_add ?rnd r (fl_mul ?rnd (fl_mul ?rnd d (Fin (GAMMA cfg))) (fl_min a b)))
        (zip rewards (zip dn (zip ?Qa ?Qb)))"
      by simp
    have n: "target_Q ! i
        = fl_add ?rnd (rewards ! i)
            (fl_mul ?rnd (fl_mul ?rnd (dn ! i) (Fin (GAMMA cfg))) (fl_min (?Qa ! i) (?Qb ! i)))"
      if "i < length ?X" for i
      using that l lr ld unfolding t by simp
    have z: "target_Q ! i = (if is_finite (fl_min (?Qa ! i) (?Qb ! i)) then rewards ! i else NaN)"
      if "i < length ?X" and r: "float32_rounding ?rnd" and d: "dn ! i = Fin 0" for i
    proof -
      have "\<forall>a. rewards ! i = Fin a \<longrightarrow> ?rnd a = Fin a"
        using td3_batch_rounded [OF r b] that(1) lr by auto
      moreover from r have "?rnd 0 = Fin 0" by (simp add: float32_rounding_def)
      ultimately show ?thesis
        unfolding n [OF that(1)] d by (rule mask_zero [rotated])
    qed
    from t l lr ld have "length target_Q = length ?X" by simp
    with n z show "length target_Q = length ?X
      \<and> (\<forall>i < length ?X.
            target_Q ! i
              = fl_add ?rnd (rewards ! i)
                  (fl_mul ?rnd (fl_mul ?rnd (dn ! i) (Fin (GAMMA cfg))) (fl_min (?Qa ! i) (?Qb ! i)))
            \<and> (float32_rounding ?rnd \<and> dn ! i = Fin 0
                 \<longrightarrow> target_Q ! i
                   = (if is_finite (fl_min (?Qa ! i) (?Qb ! i)) then rewards ! i else NaN)))"
      by blast
  qed
  show ?thesis
    unfolding Let_def
    by (intro exI conjI) (rule b na tq st1 st2 st3 lr ld rows tgt)+
qed

lemma sac_critic_target:
  assumes "\<not> sac_mem_len ops (sac_memory m) < SAC_BATCH_SIZE cfg"
    and "sac_optimize ops cfg m rng = Inr (m', rng')"
  shows "let X = fst (sac_mem_sample ops (sac_memory m) (SAC_BATCH_SIZE cfg) rng);
             rnd = sac_round32 ops
         in \<exists>states actions rewards next_states done target_Q.
           let next_V = value_forward ops (target_value_net m) next_states
           in sac_batch rnd X = Inr (states, actions, rewards, next_states, done)
            \<and> sac_target rnd rewards done (SAC_GAMMA cfg) next_V = Inr target_Q
            \<and> soft_q_step ops (soft_Q_net1 m) states actions target_Q = Inr (soft_Q_net1 m')
            \<and> soft_q_step ops (soft_Q_net2 m) states actions target_Q = Inr (soft_Q_net2 m')
            \<and> length rewards = length X \<and> length done = length X
            \<and> (\<forall>i t. i < length X \<and> X ! i = stored_row t
                  \<longrightarrow> rewards ! i = rnd (reward t)
                      \<and> done ! i = Fin (if done_flag t then 1 else 0))
            \<and> (length next_V = length X
                 \<longrightarrow> length target_Q = length X
                   \<and> (\<forall>i < length X.
                        target_Q ! i
                          = fl_add rnd (rewards ! i)
                              (fl_mul rnd
                                 (fl_mul rnd (fl_sub rnd (Fin 1) (done ! i)) (Fin (SAC_GAMMA cfg)))
                                 (next_V ! i))
                        \<and> (float32_rounding rnd \<and> done ! i = Fin 1
                             \<longrightarrow> target_Q ! i
                               = (if is_finite (next_V ! i) then rewards ! i else NaN))
                        \<and> (float32_rounding rnd \<and> done ! i = Fin 0
                             \<longrightarrow> target_Q ! i
                               = fl_add rnd (rewards ! i)
                                   (fl_mul rnd (fl_mul rnd (Fin 1) (Fin (SAC_GAMMA cfg)))
                                      (next_V ! i)))))"
proof -
  let ?X = "fst (sac_mem_sample ops (sac_memory m) (SAC_BATCH_SIZE cfg) rng)"
  let ?rnd = "sac_round32 ops"
  from sac_optimize_steps [OF assms]
  obtain states actions rewards next_states dn target_Q where
    b: "sac_batch ?rnd ?X = Inr (states, actions, rewards, next_states, dn)"
    and tq: "sac_target ?rnd rewards dn (SAC_GAMMA cfg)
        (value_forward ops (target_value_net m) next_states) = Inr target_Q"
    and st1: "soft_q_step ops (soft_Q_net1 m) states actions target_Q = Inr (soft_Q_net1 m')"
    and st2: "soft_q_step ops (soft_Q_net2 m) states actions target_Q = Inr (soft_Q_net2 m')"
    by blast
  let ?V = "value_forward ops (target_value_net m) next_states"
  note cols = sac_batch_columns [OF b]
  have lr: "length rewards = length ?X" and ld: "length dn = length ?X"
    using cols(6,7) by simp_all
  have rows: "\<forall>i t. i < length ?X \<and> ?X ! i = stored_row t
      \<longrightarrow> rewards ! i = ?rnd (reward t) \<and> dn ! i = Fin (if done_flag t then 1 else 0)"
    using cols(6,7) by (simp add: stored_row_entries)
  have tgt: "length ?V = length ?X
      \<longrightarrow> length target_Q = length ?X
      \<and> (\<forall>i < length ?X.
            target_Q ! i
              = fl_add ?rnd (rewards ! i)
                  (fl_mul ?rnd (fl_mul ?rnd (fl_sub ?rnd (Fin 1) (dn ! i)) (Fin (SAC_GAMMA cfg)))
                     (?V ! i))
            \<and> (float32_rounding ?rnd \<and> dn ! i = Fin 1
                 \<longrightarrow> target_Q ! i = (if is_finite (?V ! i) then rewards ! i else NaN))
            \<and> (float32_rounding ?rnd \<and> dn ! i = Fin 0
                 \<longrightarrow> target_Q ! i
                   = fl_add ?rnd (rewards ! i)
                       (fl_mul ?rnd (fl_mul ?rnd (Fin 1) (Fin (SAC_GAMMA cfg))) (?V ! i))))"
  proof
    assume l: "length ?V = length ?X"
    with lr ld have e: "length dn = length rewards" "length ?V = length rewards"
      by simp_all
    from tq sac_target_same [OF e, of ?rnd "SAC_GAMMA cfg"]
    have t: "target_Q = map (\<lambda>(r, d, v).
          fl_add ?rnd r (fl_mul ?rnd (fl_mul ?rnd (fl_sub ?rnd (Fin 1) d) (Fin (SAC_GAMMA cfg))) v))
        (zip rewards (zip dn ?V))"
      by simp
    have n: "target_Q ! i
        = fl_add ?rnd (rewards ! i)
            (fl_mul ?rnd (fl_mul ?rnd (fl_sub ?rnd (Fin 1) (dn ! i)) (Fin (SAC_GAMMA cfg)))
               (?V ! i))"
      if "i < length ?X" for i
      using that l lr ld unfolding t by simp
    have o: "target_Q ! i = (if is_finite (?V ! i) then rewards ! i else NaN)"
      if "i < length ?X" and r: "float32_rounding ?rnd" and d: "dn ! i = Fin 1" for i
    proof -
      have "\<forall>a. rewards ! i = Fin a \<longrightarrow> ?rnd a = Fin a"
        using sac_batch_rounded [OF r b] that(1) lr by auto
      moreover from r have "?rnd 0 = Fin 0" by (simp add: float32_rounding_def)
      ultimately show ?thesis
        unfolding n [OF that(1)] d by (rule sac_mask_one [rotated])
    qed
    have z: "target_Q ! i
        = fl_add ?rnd (rewards ! i)
            (fl_mul ?rnd (fl_mul ?rnd (Fin 1) (Fin (SAC_GAMMA cfg))) (?V ! i))"
      if "i < length ?X" and r: "float32_rounding ?rnd" and d: "dn ! i = Fin 0" for i
    proof -
      from r have "?rnd 1 = Fin 1" by (simp add: float32_rounding_def)
      then show ?thesis
        unfolding n [OF that(1)] d by (simp add: sac_mask_zero)
    qed
    from t l lr ld have "length target_Q = length ?X" by simp
    with n o z show "length target_Q = length ?X
      \<and> (\<forall>i < length ?X.
            target_Q ! i
              = fl_add ?rnd (rewards ! i)
                  (fl_mul ?rnd (fl_mul ?rnd (fl_sub ?rnd (Fin 1) (dn ! i)) (Fin (SAC_GAMMA cfg)))
                     (?V ! i))
            \<and> (float32_rounding ?rnd \<and> dn ! i = Fin 1
                 \<longrightarrow> target_Q ! i = (if is_finite (?V ! i) then rewards ! i else NaN))
            \<and> (float32_rounding ?rnd \<and> dn ! i = Fin 0
                 \<longrightarrow> target_Q ! i
                   = fl_add ?rnd (rewards ! i)
                       (fl_mul ?rnd (fl_mul ?rnd (Fin 1) (Fin (SAC_GAMMA cfg))) (?V ! i))))"
      by blast
  qed
  show ?thesis
    unfolding Let_def
    by (intro exI conjI) (rule b tq st1 st2 lr ld rows tgt)+
qed

subsection \<open>Runs on tabular networks\<close>

lemma example_tabular_td3_run:
  "td3_optimize example_tabular_td3_ops example_td3_config
     (example_tabular_td3_model [Fin 4, Fin 8] [Fin 6, Fin 6]) 0
     = Inr ((None, Some (Fin 37)),
         (example_tabular_td3_model [Fin 4, Fin 8] [Fin 6, Fin 6])
           \<lparr>critic_A := \<lparr>nn = [Fin 1, Fin 6], target_nn = [Fin 4, Fin 8], optimizer = 1\<rparr>,
            critic_B := \<lparr>nn = [Fin 1, Fin 6], target_nn = [Fin 6, Fin 6], optimizer = 1\<rparr>,
            update_step := 1\<rparr>, 2)"
  by code_simp

lemma example_sac_run:
  "sac_optimize example_sac_ops example_sac_config (example_sac_model [Fin 4, Fin 8]) 0
     = Inr ((example_sac_model [Fin 4, Fin 8])
           \<lparr>value_net := \<lparr>sac_nn = [Fin 0, Fin 0], sac_optimizer = 1\<rparr>,
            target_value_net := [Fin 2, Fin 4],
            soft_Q_net1 := \<lparr>sac_nn = [Fin 3, Fin 3], sac_optimizer = 1\<rparr>,
            soft_Q_net2 := \<lparr>sac_nn = [Fin 3, Fin 3], sac_optimizer = 1\<rparr>,
            soft_actor := \<lparr>sac_nn = [], sac_optimizer = 1\<rparr>\<rparr>, 2)"
  by code_simp

lemma float32_rounding_Fin: "float32_rounding Fin"
  by (simp add: float32_rounding_def)

lemma example_tabular_sample:
  "fst (mem_sample example_tabular_td3_ops
      (td3_memory (example_tabular_td3_model qa qb)) (BATCH_SIZE example_td3_config) r)
     = map stored_row example_transitions"
  "round32 example_tabular_td3_ops = Fin"
  "critic_forward example_tabular_td3_ops p s a = tabular p (length s)"
  "critic_step example_tabular_td3_ops net s a t = (t, optimizer net + 1)"
  "GAMMA example_td3_config = 1/2"
  "target_nn (critic_A (example_tabular_td3_model qa qb)) = qa"
  "target_nn (critic_B (example_tabular_td3_model qa qb)) = qb"
  by (simp_all add: example_tabular_td3_ops_def example_tabular_td3_model_def
      example_td3_config_def example_transitions_def)

lemma example_sac_sample:
  "fst (sac_mem_sample example_sac_ops
      (sac_memory (example_sac_model v)) (SAC_BATCH_SIZE example_sac_config) r)
     = map stored_row example_transitions"
  "sac_round32 example_sac_ops = Fin"
  "value_forward example_sac_ops p s = tabular p (length s)"
  "soft_q_step example_sac_ops net s a t = Inr \<lparr>sac_nn = t, sac_optimizer = sac_optimizer net + 1\<rparr>"
  "SAC_GAMMA example_sac_config = 1/2"
  "target_value_net (example_sac_model v) = v"
  by (simp_all add: example_sac_ops_def example_sac_model_def
      example_sac_config_def example_transitions_def)

lemma tabular_2: "tabular [a, b] (Suc (Suc 0)) = [a, b]"
  by (simp add: tabular_def)

text \<open>
  Claim C3, as amended. In every call of TD3's \<^verbatim>\<open>optimize\<close> that is not skipped and
  returns, the target handed to the gradient steps of both critics and to the returned
  critic loss is \<open>rewards + done * GAMMA * min target_Qa target_Qb\<close> in float32
  arithmetic, on the rewards and \<^verbatim>\<open>done\<close> flags of the sampled batch, with the two target
  critics evaluated on the next states and the noised, clamped actions of the target actor.
  A stored boolean flag is 1.0 or 0.0 in the \<^verbatim>\<open>done\<close> column. When the target critics
  return one value per sampled transition, the target of a row is its reward plus
  \<open>done * GAMMA\<close> times the minimum of its two target values, so the discounted bootstrap
  term enters through the factor \<^verbatim>\<open>done\<close>; on a row whose \<^verbatim>\<open>done\<close> is 0 the target is
  the reward alone when that minimum is finite, and nan when it is infinite or nan.
  SAC's \<^verbatim>\<open>optimize\<close> masks the other way round: the target handed to the steps of both
  soft Q-networks is \<open>rewards + (1 - done) * GAMMA * next_V\<close>, which on a row whose
  \<^verbatim>\<open>done\<close> is 1 is the reward alone (for a finite \<open>next_V\<close>) and on a row whose
  \<^verbatim>\<open>done\<close> is 0 includes the discounted \<open>next_V\<close>.
\<close>

theorem critic_target_masking:
  "(\<not> mem_len ops (td3_memory m) < BATCH_SIZE cfg
      \<and> td3_optimize ops cfg m rng = Inr (res, m', rng')
    \<longrightarrow> (let S = mem_sample ops (td3_memory m) (BATCH_SIZE cfg) rng; X = fst S;
             rnd = round32 ops
         in \<exists>states actions rewards next_states done next_actions target_Q.
           let Qa = critic_forward ops (target_nn (critic_A m)) next_states next_actions;
               Qb = critic_forward ops (target_nn (critic_B m)) next_states next_actions
           in td3_batch rnd X = Inr (states, actions, rewards, next_states, done)
            \<and> broadcast2 (\<lambda>a n. map (\<lambda>x. clamp (low_bound m) (high_bound m) (x + n)) a)
                (actor_forward ops (target_nn (actor m)) next_states)
                (map (clamp (- UPDATE_CLIP cfg) (UPDATE_CLIP cfg))
                   (fst (normal ops (UPDATE_SIGMA cfg) (BATCH_SIZE cfg) (snd S))))
                = Inr next_actions
            \<and> td3_target rnd rewards done (GAMMA cfg) Qa Qb = Inr target_Q
            \<and> nn (critic_A m') = fst (critic_step ops (critic_A m) states actions target_Q)
            \<and> nn (critic_B m') = fst (critic_step ops (critic_B m) states actions target_Q)
            \<and> snd res = Some (mse_loss ops (critic_forward ops (nn (critic_A m)) states actions)
                                target_Q)
            \<and> length rewards = length X \<and> length done = length X
            \<and> (\<forall>i t. i < length X \<and> X ! i = stored_row t
                  \<longrightarrow> rewards ! i = rnd (reward t)
                      \<and> done ! i = Fin (if done_flag t then 1 else 0))
            \<and> (length Qa = length X \<and> length Qb = length X
                 \<longrightarrow> length target_Q = length X
                   \<and> (\<forall>i < length X.
                        target_Q ! i
                          = fl_add rnd (rewards ! i)
                              (fl_mul rnd (fl_mul rnd (done ! i) (Fin (GAMMA cfg)))
                                 (fl_min (Qa ! i) (Qb ! i)))
                        \<and> (float32_rounding rnd \<and> done ! i = Fin 0
                             \<longrightarrow> target_Q ! i
                               = (if is_finite (fl_min (Qa ! i) (Qb ! i)) then rewards ! i
                                  else NaN))))))
   \<and> (\<not> sac_mem_len sops (sac_memory sm) < SAC_BATCH_SIZE scfg
      \<and> sac_optimize sops scfg sm srng = Inr (sm', srng')
    \<longrightarrow> (let X = fst (sac_mem_sample sops (sac_memory sm) (SAC_BATCH_SIZE scfg) srng);
             rnd = sac_round32 sops
         in \<exists>states actions rewards next_states done target_Q.
           let next_V = value_forward sops (target_value_net sm) next_states
           in sac_batch rnd X = Inr (states, actions, rewards, next_states, done)
            \<and> sac_target rnd rewards done (SAC_GAMMA scfg) next_V = Inr target_Q
            \<and> soft_q_step sops (soft_Q_net1 sm) states actions target_Q = Inr (soft_Q_net1 sm')
            \<and> soft_q_step sops (soft_Q_net2 sm) states actions target_Q = Inr (soft_Q_net2 sm')
            \<and> length rewards = length X \<and> length done = length X
            \<and> (\<forall>i t. i < length X \<and> X ! i = stored_row t
                  \<longrightarrow> rewards ! i = rnd (reward t)
                      \<and> done ! i = Fin (if done_flag t then 1 else 0))
            \<and> (length next_V = length X
                 \<longrightarrow> length target_Q = length X
                   \<and> (\<forall>i < length X.
                        target_Q ! i
                          = fl_add rnd (rewards ! i)
                              (fl_mul rnd
                                 (fl_mul rnd (fl_sub rnd (Fin 1) (done ! i)) (Fin (SAC_GAMMA scfg)))
                                 (next_V ! i))
                        \<and> (float32_rounding rnd \<and> done ! i = Fin 1
                             \<longrightarrow> target_Q ! i
                               = (if is_finite (next_V ! i) then rewards ! i else NaN))
                        \<and> (float32_rounding rnd \<and> done ! i = Fin 0
                             \<longrightarrow> target_Q ! i
                               = fl_add rnd (rewards ! i)
                                   (fl_mul rnd (fl_mul rnd (Fin 1) (Fin (SAC_GAMMA scfg)))
                                      (next_V ! i)))))))"
  by (intro conjI impI; elim conjE) (rule td3_critic_target sac_critic_target; assumption)+

theorem critic_target_masking_witness:
  "\<not> mem_len example_tabular_td3_ops
        (td3_memory (example_tabular_td3_model [Fin 4, Fin 8] [Fin 6, Fin 6]))
      < BATCH_SIZE example_td3_config
   \<and> \<not> isl (td3_optimize example_tabular_td3_ops example_td3_config
              (example_tabular_td3_model [Fin 4, Fin 8] [Fin 6, Fin 6]) 0)
   \<and> float32_rounding (round32 example_tabular_td3_ops)
   \<and> map done_flag example_transitions = [False, True]
   \<and> map reward example_transitions = [1, 3]
   \<and> nn (critic_A (fst (snd (projr (td3_optimize example_tabular_td3_ops example_td3_config
              (example_tabular_td3_model [Fin 4, Fin 8] [Fin 6, Fin 6]) 0)))))
       = [Fin 1, Fin 6]
   \<and> \<not> sac_mem_len example_sac_ops (sac_memory (example_sac_model [Fin 4, Fin 8]))
      < SAC_BATCH_SIZE example_sac_config
   \<and> \<not> isl (sac_optimize example_sac_ops example_sac_config (example_sac_model [Fin 4, Fin 8]) 0)
   \<and> float32_rounding (sac_round32 example_sac_ops)
   \<and> sac_nn (soft_Q_net1 (fst (projr (sac_optimize example_sac_ops example_sac_config
              (example_sac_model [Fin 4, Fin 8]) 0))))
       = [Fin 3, Fin 3]"
proof -
  let ?m = "example_tabular_td3_model [Fin 4, Fin 8] [Fin 6, Fin 6]"
  let ?m' = "?m\<lparr>critic_A := \<lparr>nn = [Fin 1, Fin 6], target_nn = [Fin 4, Fin 8], optimizer = 1\<rparr>,
            critic_B := \<lparr>nn = [Fin 1, Fin 6], target_nn = [Fin 6, Fin 6], optimizer = 1\<rparr>,
            update_step := 1\<rparr>"
  let ?sm = "example_sac_model [Fin 4, Fin 8]"
  let ?sm' = "?sm\<lparr>value_net := \<lparr>sac_nn = [Fin 0, Fin 0], sac_optimizer = 1\<rparr>,
            target_value_net := [Fin 2, Fin 4],
            soft_Q_net1 := \<lparr>sac_nn = [Fin 3, Fin 3], sac_optimizer = 1\<rparr>,
            soft_Q_net2 := \<lparr>sac_nn = [Fin 3, Fin 3], sac_optimizer = 1\<rparr>,
            soft_actor := \<lparr>sac_nn = [], sac_optimizer = 1\<rparr>\<rparr>"
  have h1: "\<not> mem_len example_tabular_td3_ops (td3_memory ?m) < BATCH_SIZE example_td3_config"
    by code_simp
  have h2: "\<not> sac_mem_len example_sac_ops (sac_memory ?sm) < SAC_BATCH_SIZE example_sac_config"
    by code_simp
  note t = critic_target_masking
    [where ops = example_tabular_td3_ops and cfg = example_td3_config and m = ?m and rng = 0
       and res = "(None, Some (Fin 37))" and m' = ?m' and rng' = 2
       and sops = example_sac_ops and scfg = example_sac_config and sm = ?sm and srng = 0
       and sm' = ?sm' and srng' = 2]
  from t h1 example_tabular_td3_run
  obtain states actions rewards next_states dn next_actions target_Q where
    b: "td3_batch Fin (map stored_row example_transitions)
          = Inr (states, actions, rewards, next_states, dn)"
    and s: "nn (critic_A ?m') = fst (critic_step example_tabular_td3_ops (critic_A ?m)
          states actions target_Q)"
    and g: "length (tabular [Fin 4, Fin 8] (length next_states))
              = length (map stored_row example_transitions)
          \<and> length (tabular [Fin 6, Fin 6] (length next_states))
              = length (map stored_row example_transitions)
        \<longrightarrow> length target_Q = length (map stored_row example_transitions)
          \<and> (\<forall>i < length (map stored_row example_transitions).
               target_Q ! i
                 = fl_add Fin (rewards ! i)
                     (fl_mul Fin (fl_mul Fin (dn ! i) (Fin (1/2)))
                        (fl_min (tabular [Fin 4, Fin 8] (length next_states) ! i)
                           (tabular [Fin 6, Fin 6] (length next_states) ! i)))
               \<and> (float32_rounding Fin \<and> dn ! i = Fin 0
                    \<longrightarrow> target_Q ! i
                      = (if is_finite (fl_min (tabular [Fin 4, Fin 8] (length next_states) ! i)
                                         (tabular [Fin 6, Fin 6] (length next_states) ! i))
                         then rewards ! i else NaN)))"
    unfolding Let_def example_tabular_sample by blast
  from b have v: "rewards = [Fin 1, Fin 3]" "dn = [Fin 0, Fin 1]" "next_states = [[4], [6]]"
    unfolding example_td3_batch by simp_all
  from g have "target_Q ! 0 = Fin 1 \<and> target_Q ! 1 = Fin 6 \<and> length target_Q = 2"
    unfolding v by (simp add: tabular_2 example_length float32_rounding_Fin)
  then have "target_Q = [Fin 1, Fin 6]"
    by (intro nth_equalityI) (auto simp: less_Suc_eq numeral_2_eq_2)
  with s have a: "nn (critic_A ?m') = [Fin 1, Fin 6]"
    by (simp add: example_tabular_sample)
  from t h2 example_sac_run
  obtain sstates sactions srewards snext_states sdn starget_Q where
    sb: "sac_batch Fin (map stored_row example_transitions)
          = Inr (sstates, sactions, srewards, snext_states, sdn)"
    and ss: "soft_q_step example_sac_ops (soft_Q_net1 ?sm) sstates sactions starget_Q
          = Inr (soft_Q_net1 ?sm')"
    and sg: "length (tabular [Fin 4, Fin 8] (length snext_states))
              = length (map stored_row example_transitions)
        \<longrightarrow> length starget_Q = length (map stored_row example_transitions)
          \<and> (\<forall>i < length (map stored_row example_transitions).
               starget_Q ! i
                 = fl_add Fin (srewards ! i)
                     (fl_mul Fin (fl_mul Fin (fl_sub Fin (Fin 1) (sdn ! i)) (Fin (1/2)))
                        (tabular [Fin 4, Fin 8] (length snext_states) ! i))
               \<and> (float32_rounding Fin \<and> sdn ! i = Fin 1
                    \<longrightarrow> starget_Q ! i
                      = (if is_finite (tabular [Fin 4, Fin 8] (length snext_states) ! i)
                         then srewards ! i else NaN))
               \<and> (float32_rounding Fin \<and> sdn ! i = Fin 0
                    \<longrightarrow> starget_Q ! i
                      = fl_add Fin (srewards ! i)
                          (fl_mul Fin (fl_mul Fin (Fin 1) (Fin (1/2)))
                             (tabular [Fin 4, Fin 8] (length snext_states) ! i))))"
    unfolding Let_def example_sac_sample by blast
  from sb have sv: "srewards = [Fin 1, Fin 3]" "sdn = [Fin 0, Fin 1]" "snext_states = [[4], [6]]"
    unfolding example_sac_batch by simp_all
  from sg have "starget_Q ! 0 = Fin 3 \<and> starget_Q ! 1 = Fin 3 \<and> length starget_Q = 2"
    unfolding sv by (simp add: tabular_2 example_length float32_rounding_Fin fl_sub_def)
  then have "starget_Q = [Fin 3, Fin 3]"
    by (intro nth_equalityI) (auto simp: less_Suc_eq numeral_2_eq_2)
  with ss have sa: "sac_nn (soft_Q_net1 ?sm') = [Fin 3, Fin 3]"
    by (simp add: example_sac_sample)
  have r: "float32_rounding (round32 example_tabular_td3_ops)"
      "float32_rounding (sac_round32 example_sac_ops)"
    by (simp_all add: example_tabular_sample example_sac_sample float32_rounding_Fin)
  have e: "map done_flag example_transitions = [False, True]"
      "map reward example_transitions = [1, 3]"
    by (simp_all add: example_transitions_def)
  from h1 h2 a sa r e show ?thesis
    by (simp add: example_tabular_td3_run example_sac_run)
qed

text \<open>
  The claim as stated fails when the target critics have diverged. With both target
  critics returning \<open>+inf\<close> on the two example transitions, the first of which has
  \<^verbatim>\<open>done = False\<close> and reward 1, the target of that row is nan and not the reward:
  \<open>0 * GAMMA * inf\<close> is nan. Both critics are fitted to it and the returned loss is nan.
\<close>

theorem td3_target_is_nan_for_diverged_critics:
  "map done_flag example_transitions = [False, True]
   \<and> map reward example_transitions = [1, 3]
   \<and> td3_optimize example_tabular_td3_ops example_td3_config
       (example_tabular_td3_model [PInf, PInf] [PInf, PInf]) 0
     = Inr ((None, Some NaN),
         (example_tabular_td3_model [PInf, PInf] [PInf, PInf])
           \<lparr>critic_A := \<lparr>nn = [NaN, PInf], target_nn = [PInf, PInf], optimizer = 1\<rparr>,
            critic_B := \<lparr>nn = [NaN, PInf], target_nn = [PInf, PInf], optimizer = 1\<rparr>,
            update_step := 1\<rparr>, 2)
   \<and> td3_target Fin [Fin 1, Fin 3] [Fin 0, Fin 1] (1/2) [PInf, PInf] [PInf, PInf]
     = Inr [NaN, PInf]
   \<and> fl_add Fin (Fin 1) (fl_mul Fin (fl_mul Fin (Fin 0) (Fin (1/2))) (fl_min PInf PInf)) \<noteq> Fin 1"
  by code_simp

subsection \<open>Transposing the sampled batch\<close>





















section \<open>Properties of the training drivers\<close>

subsection \<open>What every run of a driver keeps true of its trace\<close>

lemma dqn_episode_loop_preserves:
  assumes body: "\<And>s x s'. ep_step s < max_steps
      \<Longrightarrow> dqn_loop_body ops max_steps episode s = (x, s') \<Longrightarrow> P (trace s) \<Longrightarrow> P (trace s')"
    and start: "P (trace s)"
  shows "P (trace (snd (dqn_episode_loop ops max_steps episode s)))"
  using body start
proof (induction ops max_steps episode s rule: dqn_episode_loop.induct)
  case (1 ops max_steps episode s)
  show ?case
  proof (cases "\<not> ep_done s \<and> ep_step s < max_steps")
    case False
    then have "dqn_episode_loop ops max_steps episode s = (None, s)"
      by (subst dqn_episode_loop.simps) auto
    then show ?thesis using "1.prems"(2) by simp
  next
    case True
    obtain x s' where b: "dqn_loop_body ops max_steps episode s = (x, s')"
      by (cases "dqn_loop_body ops max_steps episode s")
    from True have lt: "ep_step s < max_steps" by simp
    have nf: "P (trace s')"
      by (rule "1.prems"(1) [OF lt b "1.prems"(2)])
    show ?thesis
    proof (cases x)
      case (Some e)
      with True b have "dqn_episode_loop ops max_steps episode s = (Some e, s')"
        by (subst dqn_episode_loop.simps) simp
      with nf show ?thesis by simp
    next
      case None
      with True b have "dqn_episode_loop ops max_steps episode s
          = dqn_episode_loop ops max_steps episode s'"
        by (subst dqn_episode_loop.simps) simp
      with "1.IH" [OF True b [symmetric] None "1.prems"(1) nf]
      show ?thesis by simp
    qed
  qed
qed

lemma run_episode_loop_preserves:
  assumes body: "\<And>s x s'. ep_step s < MAX_STEPS cfg
      \<Longrightarrow> run_loop_body ops cfg episode s = (x, s') \<Longrightarrow> P (trace s) \<Longrightarrow> P (trace s')"
    and start: "P (trace s)"
  shows "P (trace (snd (run_episode_loop ops cfg episode s)))"
  using body start
proof (induction ops cfg episode s rule: run_episode_loop.induct)
  case (1 ops cfg episode s)
  show ?case
  proof (cases "\<not> ep_done s \<and> ep_step s < MAX_STEPS cfg")
    case False
    then have "run_episode_loop ops cfg episode s = (None, s)"
      by (subst run_episode_loop.simps) auto
    then show ?thesis using "1.prems"(2) by simp
  next
    case True
    obtain x s' where b: "run_loop_body ops cfg episode s = (x, s')"
      by (cases "run_loop_body ops cfg episode s")
    from True have lt: "ep_step s < MAX_STEPS cfg" by simp
    have nf: "P (trace s')"
      by (rule "1.prems"(1) [OF lt b "1.prems"(2)])
    show ?thesis
    proof (cases x)
      case (Some e)
      with True b have "run_episode_loop ops cfg episode s = (Some e, s')"
        by (subst run_episode_loop.simps) simp
      with nf show ?thesis by simp
    next
      case None
      with True b have "run_episode_loop ops cfg episode s
          = run_episode_loop ops cfg episode s'"
        by (subst run_episode_loop.simps) simp
      with "1.IH" [OF True b [symmetric] None "1.prems"(1) nf]
      show ?thesis by simp
    qed
  qed
qed


lemma dqn_episode_preserves:
  assumes body: "\<And>s x s'. ep_step s < max_steps
      \<Longrightarrow> dqn_loop_body ops max_steps episode s = (x, s') \<Longrightarrow> P (trace s) \<Longrightarrow> P (trace s')"
    and start: "P (tr_trace t)"
  shows "P (tr_trace (snd (dqn_episode ops max_steps episode t)))"
proof (cases "env_reset ops (tr_world t)")
  case (Inl e)
  then show ?thesis using start by (simp add: dqn_episode_def)
next
  case (Inr r)
  obtain st w where r: "r = (st, w)" by (cases r)
  let ?s0 = "\<lparr>world = w, ep_state = st, ep_done = False, ep_step = 0, ep_reward = 0,
      trace = tr_trace t\<rparr>"
  have "P (trace ?s0)" using start by simp
  with body have "P (trace (snd (dqn_episode_loop ops max_steps episode ?s0)))"
    by (rule dqn_episode_loop_preserves)
  then show ?thesis
    using Inr r
    by (auto simp: dqn_episode_def Let_def split: prod.splits option.splits)
qed

lemma dqn_episodes_preserves:
  assumes body: "\<And>episode s x s'. ep_step s < max_steps
      \<Longrightarrow> dqn_loop_body ops max_steps episode s = (x, s') \<Longrightarrow> P (trace s) \<Longrightarrow> P (trace s')"
    and start: "P (tr_trace t)"
  shows "P (tr_trace (snd (dqn_episodes ops max_steps eps t)))"
  using start
proof (induction eps arbitrary: t)
  case Nil
  then show ?case by simp
next
  case (Cons episode eps)
  obtain x t' where e: "dqn_episode ops max_steps episode t = (x, t')"
    by (cases "dqn_episode ops max_steps episode t")
  have "P (tr_trace (snd (dqn_episode ops max_steps episode t)))"
    using body Cons.prems by (rule dqn_episode_preserves)
  with e have nf: "P (tr_trace t')" by simp
  show ?case
  proof (cases x)
    case None
    with e Cons.IH [OF nf] show ?thesis by simp
  next
    case (Some a)
    with e nf show ?thesis by simp
  qed
qed

lemma run_episode_preserves:
  assumes body: "\<And>s x s'. ep_step s < MAX_STEPS cfg
      \<Longrightarrow> run_loop_body ops cfg episode s = (x, s') \<Longrightarrow> P (trace s) \<Longrightarrow> P (trace s')"
    and start: "P (tr_trace t)"
  shows "P (tr_trace (snd (run_episode ops cfg episode t)))"
proof (cases "env_reset ops (tr_world t)")
  case (Inl e)
  then show ?thesis using start by (simp add: run_episode_def)
next
  case (Inr r)
  obtain st w where r: "r = (st, w)" by (cases r)
  let ?s0 = "\<lparr>world = w, ep_state = st, ep_done = False, ep_step = 0, ep_reward = 0,
      trace = tr_trace t\<rparr>"
  have "P (trace ?s0)" using start by simp
  with body have "P (trace (snd (run_episode_loop ops cfg episode ?s0)))"
    by (rule run_episode_loop_preserves)
  then show ?thesis
    using Inr r
    by (auto simp: run_episode_def Let_def split: prod.splits option.splits)
qed

lemma run_episodes_preserves:
  assumes body: "\<And>episode s x s'. ep_step s < MAX_STEPS cfg
      \<Longrightarrow> run_loop_body ops cfg episode s = (x, s') \<Longrightarrow> P (trace s) \<Longrightarrow> P (trace s')"
    and start: "P (tr_trace t)"
  shows "P (tr_trace (snd (run_episodes ops cfg eps t)))"
  using start
proof (induction eps arbitrary: t)
  case Nil
  then show ?case by simp
next
  case (Cons episode eps)
  obtain x t' where e: "run_episode ops cfg episode t = (x, t')"
    by (cases "run_episode ops cfg episode t")
  have "P (tr_trace (snd (run_episode ops cfg episode t)))"
    using body Cons.prems by (rule run_episode_preserves)
  with e have nf: "P (tr_trace t')" by simp
  show ?case
  proof (cases x)
    case None
    with e Cons.IH [OF nf] show ?thesis by simp
  next
    case (Some a)
    with e nf show ?thesis by simp
  qed
qed

lemma events_dqn_train:
  "events (dqn_train ops max_episodes max_steps w)
     = tr_trace (snd (dqn_episodes ops max_steps [0..<max_episodes] (new_training w)))"
  by (simp add: dqn_train_def Let_def split: prod.splits)

lemma events_run_train:
  "events (run_train ops cfg w)
     = tr_trace (snd (run_episodes ops cfg [0..<MAX_EPISODES cfg] (new_training w)))"
  by (simp add: run_train_def Let_def split: prod.splits)

lemma dqn_loop_body_no_force:
  assumes "ep_step s < max_steps" and "dqn_loop_body ops max_steps episode s = (x, s')"
    and "ForceDone \<notin> set (trace s)"
  shows "ForceDone \<notin> set (trace s')"
  using assms
  by (auto simp: dqn_loop_body_def Let_def split: sum.splits prod.splits)

lemma dqn_loop_body_four_fields:
  assumes "dqn_loop_body ops max_steps episode s = (x, s')"
    and "list_all four_fields (trace s)"
  shows "list_all four_fields (trace s')"
  using assms
  by (auto simp: dqn_loop_body_def Let_def split: sum.splits prod.splits if_splits)

lemma run_loop_body_five_fields:
  assumes "run_loop_body ops cfg episode s = (x, s')"
    and "list_all five_fields (trace s)"
  shows "list_all five_fields (trace s')"
  using assms
  by (auto simp: run_loop_body_def Let_def split: sum.splits prod.splits if_splits)

subsection \<open>Concrete runs of the drivers\<close>

lemma example_dqn_run:
  "dqn_train (example_driver_ops False False) 1 2 0
     = \<lparr>finally_calls = [ModelSave], raised = None, end_world = 2,
        events = [Push [Vec [0], Idx 1, Num 1, Vec [1]], Push [Vec [1], Idx 1, Num 1, Vec [2]]]\<rparr>"
  by code_simp

lemma example_dqn_loop:
  "dqn_episode_loop (example_driver_ops False False) 2 0
      \<lparr>world = 0, ep_state = Vec [0], ep_done = False, ep_step = 0, ep_reward = 0, trace = []\<rparr>
     = (None, \<lparr>world = 2, ep_state = Vec [2], ep_done = False, ep_step = 2, ep_reward = 2,
         trace = [Push [Vec [0], Idx 1, Num 1, Vec [1]], Push [Vec [1], Idx 1, Num 1, Vec [2]]]\<rparr>)"
  by code_simp

lemma example_run_interrupted:
  "run_train (example_driver_ops True False) example_run_config 0
     = \<lparr>finally_calls = [PrintArrayInFiles, PlotTrainingOutput, EnvClose, ModelSave],
        raised = None, end_world = 1,
        events = [Push [Vec [0], Idx 1, Num 1, Vec [1], Bool False]]\<rparr>"
  by code_simp

lemma example_run_interrupted_no_print:
  "run_train (example_driver_ops True True) example_run_config 0
     = \<lparr>finally_calls = [PrintArrayInFiles], raised = Some AttributeError, end_world = 1,
        events = [Push [Vec [0], Idx 1, Num 1, Vec [1], Bool False]]\<rparr>"
  by code_simp

lemma example_run_dump_fails_elsewhere:
  "run_train (example_driver_ops_dump_fails_at 99) example_run_config 0
     = \<lparr>finally_calls = [PrintArrayInFiles, PlotTrainingOutput, EnvClose, ModelSave],
        raised = None, end_world = 1,
        events = [Push [Vec [0], Idx 1, Num 1, Vec [1], Bool False]]\<rparr>"
  by code_simp

lemma example_run_exit_world:
  "tr_world (snd (run_episodes (example_driver_ops_dump_fails_at 99) example_run_config
      [0..<MAX_EPISODES example_run_config] (new_training 0))) = 1"
  by code_simp

lemma example_dqn_interrupted:
  "dqn_train (example_driver_ops True False) 1 2 0
     = \<lparr>finally_calls = [ModelSave], raised = Some ZeroDivisionError, end_world = 1,
        events = [Push [Vec [0], Idx 1, Num 1, Vec [1]]]\<rparr>"
  by code_simp

lemma example_dqn_events:
  "events (dqn_train (example_driver_ops False False) 1 2 0)
     = [Push [Vec [0], Idx 1, Num 1, Vec [1]], Push [Vec [1], Idx 1, Num 1, Vec [2]]]"
  by (subst example_dqn_run) (rule train_result.simps)

lemma example_dqn_pushes_not_five:
  "\<not> list_all five_fields
      [Push [Vec [0], Idx 1, Num 1, Vec [1]], Push [Vec [1], Idx 1, Num 1, Vec [2]]]"
  by simp

subsection \<open>The forced termination in the DQN driver\<close>

text \<open>
  Claim C10. In the episode loop of \<^verbatim>\<open>DQN/train.py\<close> the branch
  \<^verbatim>\<open>if not done and step == config["MAX_STEPS"]: done = True\<close> is never taken. The loop
  guard gives \<open>step < MAX_STEPS\<close> in the body, before the increment, so the branch's
  condition is false there; hence from any loop state whose trace records no forced
  termination the loop ends (normally or by an exception) with none recorded, and no run
  of \<^verbatim>\<open>train\<close> records one, whatever the environment and the model do.
\<close>

theorem dqn_force_done_unreachable:
  "(\<not> ep_done s \<and> ep_step s < max_steps \<longrightarrow> ep_step s \<noteq> max_steps)
   \<and> (ForceDone \<notin> set (trace s)
        \<longrightarrow> ForceDone \<notin> set (trace (snd (dqn_episode_loop ops max_steps episode s))))
   \<and> ForceDone \<notin> set (events (dqn_train ops max_episodes max_steps w))"
proof -
  have "ForceDone \<notin> set (tr_trace (new_training w))"
    by (simp add: new_training_def)
  then have "ForceDone \<notin> set (events (dqn_train ops max_episodes max_steps w))"
    unfolding events_dqn_train
    by (rule dqn_episodes_preserves [where P = "\<lambda>tr. ForceDone \<notin> set tr", rotated])
      (rule dqn_loop_body_no_force)
  moreover have "ForceDone \<notin> set (trace (snd (dqn_episode_loop ops max_steps episode s)))"
    if "ForceDone \<notin> set (trace s)"
    using that
    by (rule dqn_episode_loop_preserves [where P = "\<lambda>tr. ForceDone \<notin> set tr", rotated])
      (rule dqn_loop_body_no_force)
  ultimately show ?thesis by simp
qed

theorem dqn_force_done_unreachable_witness:
  "\<not> ep_done \<lparr>world = 0 :: nat, ep_state = Vec [0], ep_done = False, ep_step = 0,
       ep_reward = 0, trace = []\<rparr>
   \<and> ForceDone \<notin> set (trace (snd (dqn_episode_loop (example_driver_ops False False) 2 0
       \<lparr>world = 0, ep_state = Vec [0], ep_done = False, ep_step = 0, ep_reward = 0,
        trace = []\<rparr>)))
   \<and> ep_step (snd (dqn_episode_loop (example_driver_ops False False) 2 0
       \<lparr>world = 0, ep_state = Vec [0], ep_done = False, ep_step = 0, ep_reward = 0,
        trace = []\<rparr>)) = 2
   \<and> \<not> ep_done (snd (dqn_episode_loop (example_driver_ops False False) 2 0
       \<lparr>world = 0, ep_state = Vec [0], ep_done = False, ep_step = 0, ep_reward = 0,
        trace = []\<rparr>))
   \<and> ForceDone \<notin> set (events (dqn_train (example_driver_ops False False) 1 2 0))"
  using dqn_force_done_unreachable
    [where s = "\<lparr>world = 0 :: nat, ep_state = Vec [0], ep_done = False, ep_step = 0,
         ep_reward = 0, trace = []\<rparr>"
       and max_steps = 2 and ops = "example_driver_ops False False" and episode = 0
       and max_episodes = 1 and w = 0]
  by (simp add: example_dqn_loop)

subsection \<open>What the drivers push\<close>

text \<open>
  Claim C4, as amended. Every push performed by \<^verbatim>\<open>train\<close> of
  \<^verbatim>\<open>commons/run_expe.py\<close> supplies the five fields state, action, reward, next state and
  the boolean \<^verbatim>\<open>done\<close> flag; every push performed by \<^verbatim>\<open>train\<close> of
  \<^verbatim>\<open>DQN/train.py\<close> supplies the four fields state, action, reward and next state, and
  no \<^verbatim>\<open>done\<close> flag (the source has it commented out).
\<close>

theorem drivers_push_fields:
  "list_all five_fields (events (run_train ops cfg w))
   \<and> list_all four_fields (events (dqn_train ops' max_episodes max_steps w'))"
proof -
  have "list_all five_fields (tr_trace (new_training w))"
    by (simp add: new_training_def)
  then have a: "list_all five_fields (events (run_train ops cfg w))"
    unfolding events_run_train
    by (rule run_episodes_preserves [where P = "list_all five_fields", rotated])
      (rule run_loop_body_five_fields)
  have "list_all four_fields (tr_trace (new_training w'))"
    by (simp add: new_training_def)
  then have b: "list_all four_fields (events (dqn_train ops' max_episodes max_steps w'))"
    unfolding events_dqn_train
    by (rule dqn_episodes_preserves [where P = "list_all four_fields", rotated])
      (rule dqn_loop_body_four_fields)
  from a b show ?thesis ..
qed

theorem drivers_push_fields_witness:
  "list_all five_fields (events (run_train (example_driver_ops True False) example_run_config 0))
   \<and> events (run_train (example_driver_ops True False) example_run_config 0)
       = [Push [Vec [0], Idx 1, Num 1, Vec [1], Bool False]]
   \<and> list_all four_fields (events (dqn_train (example_driver_ops False False) 1 2 0))"
  using drivers_push_fields
    [where ops = "example_driver_ops True False" and cfg = example_run_config and w = 0
       and ops' = "example_driver_ops False False" and max_episodes = 1 and max_steps = 2
       and w' = 0]
  by (simp add: example_run_interrupted)

text \<open>
  The claim as stated fails on the DQN driver: in a run of two steps both pushes supply
  four arguments, and none of them is a \<^verbatim>\<open>done\<close> flag.
\<close>

theorem dqn_driver_pushes_no_done_flag:
  "events (dqn_train (example_driver_ops False False) 1 2 0)
     = [Push [Vec [0], Idx 1, Num 1, Vec [1]], Push [Vec [1], Idx 1, Num 1, Vec [2]]]
   \<and> \<not> list_all five_fields (events (dqn_train (example_driver_ops False False) 1 2 0))"
  using example_dqn_pushes_not_five by (simp only: example_dqn_events simp_thms)

subsection \<open>The checkpoint on the way out\<close>

lemma finally_dqn_train:
  "finally_calls (dqn_train ops max_episodes max_steps w) = [ModelSave]"
  by (simp add: dqn_train_def Let_def split: prod.splits sum.splits)

lemma finally_run_train_eq:
  "finally_calls (run_train ops cfg w)
     = fst (run_calls (perform ops)
         ([PrintArrayInFiles, PlotTrainingOutput, EnvClose, ModelSave]
          @ (if STARCCM cfg then [FinishCFD] else []))
         (tr_world (snd (run_episodes ops cfg [0..<MAX_EPISODES cfg] (new_training w)))))"
  by (simp del: run_calls.simps add: run_train_def Let_def split: prod.splits)

text \<open>
  Claim C8, as amended. Whatever ends the training loop (its normal end, a
  KeyboardInterrupt or any other exception), the \<^verbatim>\<open>finally\<close> block runs. In
  \<^verbatim>\<open>DQN/train.py\<close> it calls \<^verbatim>\<open>model.save()\<close> first, so the checkpoint is attempted on
  every exit path. In \<^verbatim>\<open>commons/run_expe.py\<close> the block calls
  \<^verbatim>\<open>env.print_array_in_files\<close>, \<^verbatim>\<open>env.plot_training_output\<close> and \<^verbatim>\<open>env.close\<close> before
  \<^verbatim>\<open>model.save()\<close>, so the checkpoint is attempted on exactly those exit paths on which
  these three calls, made one after the other from the state in which the loop was left,
  return normally.
\<close>

theorem checkpoint_in_finally:
  "ModelSave \<in> set (finally_calls (dqn_train ops' max_episodes max_steps w'))
   \<and> (ModelSave \<in> set (finally_calls (run_train ops cfg w))
        \<longleftrightarrow> (\<exists>w1 w2 w3.
              perform ops PrintArrayInFiles
                (tr_world (snd (run_episodes ops cfg [0..<MAX_EPISODES cfg] (new_training w))))
                = Inr w1
              \<and> perform ops PlotTrainingOutput w1 = Inr w2
              \<and> perform ops EnvClose w2 = Inr w3))"
proof -
  have a: "ModelSave \<in> set (finally_calls (dqn_train ops' max_episodes max_steps w'))"
    by (simp add: finally_dqn_train)
  have b: "ModelSave \<in> set (fst (run_calls (perform ops)
             ([PrintArrayInFiles, PlotTrainingOutput, EnvClose, ModelSave]
              @ (if STARCCM cfg then [FinishCFD] else [])) v))
        \<longleftrightarrow> (\<exists>w1 w2 w3. perform ops PrintArrayInFiles v = Inr w1
              \<and> perform ops PlotTrainingOutput w1 = Inr w2
              \<and> perform ops EnvClose w2 = Inr w3)" for v
    by (auto split: sum.splits prod.splits)
  show ?thesis
    unfolding finally_run_train_eq using a b by blast
qed

theorem checkpoint_in_finally_witness:
  "perform (example_driver_ops_dump_fails_at 99) PrintArrayInFiles 99 = Inl OSError
   \<and> tr_world (snd (run_episodes (example_driver_ops_dump_fails_at 99) example_run_config
        [0..<MAX_EPISODES example_run_config] (new_training 0))) = 1
   \<and> perform (example_driver_ops_dump_fails_at 99) PrintArrayInFiles 1 = Inr 1
   \<and> perform (example_driver_ops_dump_fails_at 99) PlotTrainingOutput 1 = Inr 1
   \<and> perform (example_driver_ops_dump_fails_at 99) EnvClose 1 = Inr 1
   \<and> ModelSave \<in> set (finally_calls
        (run_train (example_driver_ops_dump_fails_at 99) example_run_config 0))
   \<and> finally_calls (run_train (example_driver_ops_dump_fails_at 99) example_run_config 0)
       = [PrintArrayInFiles, PlotTrainingOutput, EnvClose, ModelSave]
   \<and> raised (run_train (example_driver_ops_dump_fails_at 99) example_run_config 0) = None
   \<and> ModelSave \<in> set (finally_calls (dqn_train (example_driver_ops True False) 1 2 0))"
proof -
  have p: "perform (example_driver_ops_dump_fails_at 99) PrintArrayInFiles 99 = Inl OSError"
    "perform (example_driver_ops_dump_fails_at 99) PrintArrayInFiles 1 = Inr 1"
    "perform (example_driver_ops_dump_fails_at 99) PlotTrainingOutput 1 = Inr 1"
    "perform (example_driver_ops_dump_fails_at 99) EnvClose 1 = Inr 1"
    by (simp_all add: example_driver_ops_dump_fails_at_def)
  have r: "finally_calls (run_train (example_driver_ops_dump_fails_at 99) example_run_config 0)
       = [PrintArrayInFiles, PlotTrainingOutput, EnvClose, ModelSave]"
    "raised (run_train (example_driver_ops_dump_fails_at 99) example_run_config 0) = None"
    by (simp_all add: example_run_dump_fails_elsewhere)
  from checkpoint_in_finally
    [where ops = "example_driver_ops_dump_fails_at 99" and cfg = example_run_config and w = 0
       and ops' = "example_driver_ops True False" and max_episodes = 1 and max_steps = 2
       and w' = 0]
  show ?thesis
    using p r example_run_exit_world by simp
qed

text \<open>
  The claim as stated fails on \<^verbatim>\<open>commons/run_expe.py\<close>: when the user interrupts the
  first episode and the environment has no \<^verbatim>\<open>print_array_in_files\<close> (a plain gym
  environment), the \<^verbatim>\<open>finally\<close> block raises AttributeError at its first statement and
  \<^verbatim>\<open>model.save()\<close> is never called.
\<close>

theorem checkpoint_skipped_when_env_dump_raises:
  "finally_calls (run_train (example_driver_ops True True) example_run_config 0)
     = [PrintArrayInFiles]
   \<and> raised (run_train (example_driver_ops True True) example_run_config 0)
     = Some AttributeError
   \<and> ModelSave \<notin> set (finally_calls (run_train (example_driver_ops True True) example_run_config 0))"
  by (simp add: example_run_interrupted_no_print)

end
